theory Spec2Isabelle
  imports Main "HOL-Library.Word" "HOL-Library.Char_ord" "HOL-Library.List_Lexorder"
    "HOL-Library.Sublist" "HOL-Library.Multiset"
begin

unbundle bit_operations_syntax

section \<open>The Store (storage\_manager.cc)\<close>

text \<open>
  One row of the table \<open>events(id TEXT PRIMARY KEY, event_json TEXT, created_at INTEGER)\<close>.
  The table is kept as the list of its rows in insertion (rowid) order. The handle \<open>db_\<close>
  is the flag \<open>db_open\<close>; statements prepared on an open handle are taken to run, except
  an INSERT that breaks the primary key.
\<close>

record event_row =
  row_id :: string
  event_json :: string
  created_at :: int

record store =
  db_open :: bool
  events :: "event_row list"
  settings :: "string \<Rightarrow> string option"
  super_properties :: "(string \<times> string) list"

definition hex_digit :: "4 word \<Rightarrow> char" where
  "hex_digit d = ''0123456789abcdef'' ! unat d"

text \<open>
  \<open>StorageManager::GenerateUUID\<close>: 32 draws of \<open>uniform_int_distribution(0, 15)\<close>, printed
  in hexadecimal, with a dash before the draws 8, 12, 16 and 20. The generator is the
  function \<open>draw\<close> from the position to the value drawn there.
\<close>

definition GenerateUUID :: "(nat \<Rightarrow> 4 word) \<Rightarrow> string" where
  "GenerateUUID draw =
     concat (map (\<lambda>i. (if i = 8 \<or> i = 12 \<or> i = 16 \<or> i = 20 then ''-'' else []) @ [hex_digit (draw i)])
                 [0..<32])"

text \<open>
  \<open>StorageManager::EnqueueEvent\<close>: a fresh id, the JSON text and \<open>time(nullptr)\<close>; the
  result is whether \<open>sqlite3_step\<close> returned \<open>SQLITE_DONE\<close>.
\<close>

definition EnqueueEvent :: "(nat \<Rightarrow> 4 word) \<Rightarrow> int \<Rightarrow> string \<Rightarrow> store \<Rightarrow> bool \<times> store" where
  "EnqueueEvent draw now_s ev s =
     (if \<not> db_open s then (False, s)
      else let i = GenerateUUID draw in
        if i \<in> set (map row_id (events s)) then (False, s)
        else (True, s\<lparr>events := events s @ [\<lparr>row_id = i, event_json = ev, created_at = now_s\<rparr>]\<rparr>))"

text \<open>\<open>LIMIT ?\<close> with the bound value: a negative limit is no limit in SQLite.\<close>

definition sql_limit :: "int \<Rightarrow> 'a list \<Rightarrow> 'a list" where
  "sql_limit n xs = (if n < 0 then xs else take (nat n) xs)"

text \<open>
  The rows of \<open>SELECT id, event_json FROM events ORDER BY created_at ASC LIMIT ?\<close>. The
  statement names \<open>created_at\<close> as its only sort key; rows with equal keys come out in the
  order of the table scan, which is what the stable \<open>sort_key\<close> gives.
\<close>

definition drained_rows :: "int \<Rightarrow> store \<Rightarrow> event_row list" where
  "drained_rows max_count s = sql_limit max_count (sort_key created_at (events s))"

definition GetQueuedEvents :: "int \<Rightarrow> store \<Rightarrow> string list" where
  "GetQueuedEvents max_count s =
     (if \<not> db_open s then []
      else map (\<lambda>r. row_id r @ ''|'' @ event_json r) (drained_rows max_count s))"

text \<open>
  \<open>StorageManager::RemoveEvents\<close> builds one statement: the text with one placeholder per
  id, and the ids bound to the placeholders in order.
\<close>

record delete_stmt =
  stmt_sql :: string
  stmt_bound :: "string list"

fun placeholders :: "nat \<Rightarrow> nat \<Rightarrow> string" where
  "placeholders i 0 = []"
| "placeholders i (Suc n) = (if i > 0 then '','' else []) @ ''?'' @ placeholders (Suc i) n"

definition remove_stmt :: "string list \<Rightarrow> delete_stmt" where
  "remove_stmt event_ids =
     \<lparr>stmt_sql = ''DELETE FROM events WHERE id IN ('' @ placeholders 0 (length event_ids) @ '')'',
      stmt_bound = event_ids\<rparr>"

text \<open>What \<open>DELETE FROM events WHERE id IN (...)\<close> does to the table.\<close>

definition exec_delete :: "delete_stmt \<Rightarrow> event_row list \<Rightarrow> event_row list" where
  "exec_delete st rows = filter (\<lambda>r. row_id r \<notin> set (stmt_bound st)) rows"

definition RemoveEvents :: "string list \<Rightarrow> store \<Rightarrow> bool \<times> store" where
  "RemoveEvents event_ids s =
     (if \<not> db_open s \<or> event_ids = [] then (False, s)
      else (True, s\<lparr>events := exec_delete (remove_stmt event_ids) (events s)\<rparr>))"

definition GetQueueSize :: "store \<Rightarrow> int" where
  "GetQueueSize s = (if \<not> db_open s then 0 else int (length (events s)))"

text \<open>The settings table: \<open>INSERT OR REPLACE\<close> and \<open>SELECT value ... WHERE key = ...\<close>.\<close>

definition set_setting :: "string \<Rightarrow> string \<Rightarrow> store \<Rightarrow> store" where
  "set_setting k v s = (if \<not> db_open s then s else s\<lparr>settings := (settings s)(k \<mapsto> v)\<rparr>)"

definition get_setting :: "string \<Rightarrow> string \<Rightarrow> store \<Rightarrow> string" where
  "get_setting k dflt s =
     (if \<not> db_open s then dflt else (case settings s k of None \<Rightarrow> dflt | Some v \<Rightarrow> v))"

definition SetDistinctId :: "string \<Rightarrow> store \<Rightarrow> store" where
  "SetDistinctId v = set_setting ''distinct_id'' v"

definition GetDistinctId :: "store \<Rightarrow> string" where
  "GetDistinctId = get_setting ''distinct_id'' []"

definition SetSessionId :: "string \<Rightarrow> store \<Rightarrow> store" where
  "SetSessionId v = set_setting ''session_id'' v"

definition GetSessionId :: "store \<Rightarrow> string" where
  "GetSessionId = get_setting ''session_id'' []"

definition SetFeatureFlags :: "string \<Rightarrow> store \<Rightarrow> store" where
  "SetFeatureFlags v = set_setting ''feature_flags'' v"

definition GetFeatureFlags :: "store \<Rightarrow> string" where
  "GetFeatureFlags = get_setting ''feature_flags'' ''{}''"

definition SetOptOut :: "bool \<Rightarrow> store \<Rightarrow> store" where
  "SetOptOut b = set_setting ''opt_out'' (if b then ''1'' else ''0'')"

definition GetOptOut :: "store \<Rightarrow> bool" where
  "GetOptOut s = (db_open s \<and> settings s ''opt_out'' = Some ''1'')"

definition SetSuperProperty :: "string \<Rightarrow> string \<Rightarrow> store \<Rightarrow> store" where
  "SetSuperProperty k v s =
     (if \<not> db_open s then s
      else s\<lparr>super_properties := filter (\<lambda>p. fst p \<noteq> k) (super_properties s) @ [(k, v)]\<rparr>)"

definition RemoveSuperProperty :: "string \<Rightarrow> store \<Rightarrow> store" where
  "RemoveSuperProperty k s =
     (if \<not> db_open s then s
      else s\<lparr>super_properties := filter (\<lambda>p. fst p \<noteq> k) (super_properties s)\<rparr>)"

definition GetAllSuperProperties :: "store \<Rightarrow> (string \<times> string) list" where
  "GetAllSuperProperties s = (if \<not> db_open s then [] else super_properties s)"



section \<open>JSON values and the wire structures (posthog\_models.h)\<close>

text \<open>
  A value of the JSON library. An object is the list of its members in key order, as the
  library's ordered map keeps them; a floating-point number is carried as its printed text,
  since nothing here computes with one.
\<close>

datatype json = JNull | JBool bool | JInt int | JFloat string | JString string
  | JArray "json list" | JObject "(string \<times> json) list"

text \<open>\<open>j[key] = value\<close> on the members of an object: insert in key order or overwrite.\<close>

fun obj_insert :: "string \<Rightarrow> json \<Rightarrow> (string \<times> json) list \<Rightarrow> (string \<times> json) list" where
  "obj_insert k v [] = [(k, v)]"
| "obj_insert k v ((k', v') # kvs) =
     (if k = k' then (k, v) # kvs
      else if k < k' then (k, v) # (k', v') # kvs
      else (k', v') # obj_insert k v kvs)"

text \<open>A run of assignments \<open>j[k1] = v1; j[k2] = v2; ...\<close> starting from the members \<open>kvs\<close>.\<close>

definition obj_assign :: "(string \<times> json) list \<Rightarrow> (string \<times> json) list \<Rightarrow> (string \<times> json) list" where
  "obj_assign kvs asg = foldl (\<lambda>acc p. obj_insert (fst p) (snd p) acc) kvs asg"

fun jfield :: "string \<Rightarrow> json \<Rightarrow> json option" where
  "jfield k (JObject kvs) = map_of kvs k"
| "jfield k j = None"

fun jindex :: "nat \<Rightarrow> json \<Rightarrow> json option" where
  "jindex i (JArray xs) = (if i < length xs then Some (xs ! i) else None)"
| "jindex i j = None"

fun jelems :: "json \<Rightarrow> json list" where
  "jelems (JArray xs) = xs"
| "jelems j = []"

text \<open>\<open>std::to_string\<close> of a signed integer: the decimal digits, after a minus sign if negative.\<close>

fun nat_to_string :: "nat \<Rightarrow> string" where
  "nat_to_string n =
     (if n < 10 then [''0123456789'' ! n]
      else nat_to_string (n div 10) @ [''0123456789'' ! (n mod 10)])"

declare nat_to_string.simps [simp del]

definition to_string :: "int \<Rightarrow> string" where
  "to_string i = (if i < 0 then CHR ''-'' # nat_to_string (nat (- i)) else nat_to_string (nat i))"

text \<open>Reading a decimal numeral, to say what a decimal string is and which number it holds.\<close>

definition is_digit :: "char \<Rightarrow> bool" where
  "is_digit c = (CHR ''0'' \<le> c \<and> c \<le> CHR ''9'')"

definition digit_val :: "char \<Rightarrow> nat" where
  "digit_val c = of_char c - 48"

definition digits_value :: "string \<Rightarrow> nat" where
  "digits_value ds = foldl (\<lambda>a c. 10 * a + digit_val c) 0 ds"

definition is_decimal :: "string \<Rightarrow> bool" where
  "is_decimal s =
     (case s of [] \<Rightarrow> False
      | c # ds \<Rightarrow> if c = CHR ''-'' then ds \<noteq> [] \<and> list_all is_digit ds
                  else list_all is_digit (c # ds))"

definition decimal_value :: "string \<Rightarrow> int" where
  "decimal_value s =
     (case s of [] \<Rightarrow> 0
      | c # ds \<Rightarrow> if c = CHR ''-'' then - int (digits_value ds) else int (digits_value (c # ds)))"

text \<open>
  \<open>json::dump()\<close>, compact form: members in key order, strings quoted with the quote, the
  backslash and the control characters escaped.
\<close>

fun intercalate :: "'a list \<Rightarrow> 'a list list \<Rightarrow> 'a list" where
  "intercalate sep [] = []"
| "intercalate sep [x] = x"
| "intercalate sep (x # y # ys) = x @ sep @ intercalate sep (y # ys)"

definition hex4 :: "nat \<Rightarrow> string" where
  "hex4 n = [''0123456789abcdef'' ! (n div 4096 mod 16), ''0123456789abcdef'' ! (n div 256 mod 16),
             ''0123456789abcdef'' ! (n div 16 mod 16), ''0123456789abcdef'' ! (n mod 16)]"

definition escape_char :: "char \<Rightarrow> string" where
  "escape_char c =
     (if c = CHR 0x22 then [CHR 0x5C, CHR 0x22]
      else if c = CHR 0x5C then [CHR 0x5C, CHR 0x5C]
      else if c = CHR 0x08 then [CHR 0x5C, CHR ''b'']
      else if c = CHR 0x0C then [CHR 0x5C, CHR ''f'']
      else if c = CHR 0x0A then [CHR 0x5C, CHR ''n'']
      else if c = CHR 0x0D then [CHR 0x5C, CHR ''r'']
      else if c = CHR 0x09 then [CHR 0x5C, CHR ''t'']
      else if of_char c < (0x20 :: nat) then [CHR 0x5C, CHR ''u''] @ hex4 (of_char c)
      else [c])"

definition quote :: "string \<Rightarrow> string" where
  "quote s = [CHR 0x22] @ concat (map escape_char s) @ [CHR 0x22]"

fun dump :: "json \<Rightarrow> string" where
  "dump JNull = ''null''"
| "dump (JBool b) = (if b then ''true'' else ''false'')"
| "dump (JInt i) = to_string i"
| "dump (JFloat t) = t"
| "dump (JString s) = quote s"
| "dump (JArray xs) = ''['' @ intercalate '','' (map dump xs) @ '']''"
| "dump (JObject kvs) =
     ''{'' @ intercalate '','' (map (\<lambda>(k, v). quote k @ '':'' @ dump v) kvs) @ ''}''"

text \<open>\<open>posthog::PostHogEvent\<close> and its \<open>to_json\<close>.\<close>

record PostHogEvent =
  ev_event :: string
  ev_distinct_id :: string
  ev_timestamp :: int
  ev_properties :: json

definition PostHogEvent_to_json :: "PostHogEvent \<Rightarrow> json" where
  "PostHogEvent_to_json e =
     JObject (obj_assign []
       [(''event'', JString (ev_event e)),
        (''distinct_id'', JString (ev_distinct_id e)),
        (''timestamp'', JString (to_string (ev_timestamp e))),
        (''properties'', ev_properties e)])"

record PostHogBatch =
  pb_api_key :: string
  pb_batch :: "PostHogEvent list"

definition PostHogBatch_to_json :: "PostHogBatch \<Rightarrow> json" where
  "PostHogBatch_to_json b =
     JObject (obj_assign []
       [(''api_key'', JString (pb_api_key b)),
        (''batch'', JArray (map PostHogEvent_to_json (pb_batch b)))])"

record SessionReplayWireframe =
  wf_id :: int
  wf_x :: int
  wf_y :: int
  wf_width :: int
  wf_height :: int
  wf_type :: string
  wf_base64 :: string
  wf_style :: json

definition SessionReplayWireframe_to_json :: "SessionReplayWireframe \<Rightarrow> json" where
  "SessionReplayWireframe_to_json w =
     JObject (obj_assign []
       [(''id'', JInt (wf_id w)), (''x'', JInt (wf_x w)), (''y'', JInt (wf_y w)),
        (''width'', JInt (wf_width w)), (''height'', JInt (wf_height w)),
        (''type'', JString (wf_type w)), (''base64'', JString (wf_base64 w)),
        (''style'', wf_style w)])"

record SessionReplaySnapshotData =
  sd_initialOffset :: json
  sd_wireframes :: "SessionReplayWireframe list"
  sd_timestamp :: int

definition SessionReplaySnapshotData_to_json :: "SessionReplaySnapshotData \<Rightarrow> json" where
  "SessionReplaySnapshotData_to_json d =
     JObject (obj_assign []
       [(''initialOffset'', sd_initialOffset d),
        (''wireframes'', JArray (map SessionReplayWireframe_to_json (sd_wireframes d))),
        (''timestamp'', JInt (sd_timestamp d))])"

record SessionReplaySnapshotEvent =
  se_type :: int
  se_data :: SessionReplaySnapshotData
  se_timestamp :: int

definition SessionReplaySnapshotEvent_to_json :: "SessionReplaySnapshotEvent \<Rightarrow> json" where
  "SessionReplaySnapshotEvent_to_json e =
     JObject (obj_assign []
       [(''type'', JInt (se_type e)),
        (''data'', SessionReplaySnapshotData_to_json (se_data e)),
        (''timestamp'', JInt (se_timestamp e))])"

record SessionReplayEvent =
  sr_event :: string
  sr_distinct_id :: string
  sr_properties :: json
  sr_timestamp :: int

definition SessionReplayEvent_to_json :: "SessionReplayEvent \<Rightarrow> json" where
  "SessionReplayEvent_to_json e =
     JObject (obj_assign []
       [(''event'', JString (if sr_event e = [] then ''$snapshot'' else sr_event e)),
        (''distinct_id'', JString (if sr_distinct_id e = [] then ''unknown_user'' else sr_distinct_id e)),
        (''properties'', sr_properties e),
        (''timestamp'', JString (to_string (sr_timestamp e)))])"

record SessionReplayBatch =
  rb_api_key :: string
  rb_batch :: "SessionReplayEvent list"

definition SessionReplayBatch_to_json :: "SessionReplayBatch \<Rightarrow> json" where
  "SessionReplayBatch_to_json b =
     JObject (obj_assign []
       [(''api_key'', JString (rb_api_key b)),
        (''batch'', JArray (map SessionReplayEvent_to_json (rb_batch b)))])"

text \<open>\<open>json::empty()\<close>: null, or an object or array without elements.\<close>

fun json_empty :: "json \<Rightarrow> bool" where
  "json_empty JNull = True"
| "json_empty (JArray xs) = (xs = [])"
| "json_empty (JObject kvs) = (kvs = [])"
| "json_empty j = False"

record PostHogDecidePayload =
  dp_api_key :: string
  dp_distinct_id :: string
  dp_properties :: json

definition PostHogDecidePayload_to_json :: "PostHogDecidePayload \<Rightarrow> json" where
  "PostHogDecidePayload_to_json p =
     JObject (obj_assign []
       ([(''api_key'', JString (dp_api_key p)), (''distinct_id'', JString (dp_distinct_id p))]
        @ (if \<not> json_empty (dp_properties p) then [(''properties'', dp_properties p)] else [])))"

section \<open>The HTTP client (http\_client.cc)\<close>

record HttpResponse =
  status_code :: int
  body :: string
  success :: bool

text \<open>What \<open>curl_easy_perform\<close> came back with: an error code, or a status and a body.\<close>

datatype curl_result = CurlFailed | CurlOk int string

text \<open>
  The body of a POST. \<open>BuildCapturePayload\<close> re-parses each stored event with the JSON
  library; the request keeps the API key and the event texts it was built from.
\<close>

datatype payload = Text string | CaptureOf string "string list"

record http_request =
  req_url :: string
  req_body :: payload

record HttpClient =
  base_url :: string
  hc_api_key :: string
  curl_handle :: bool
  requests :: "http_request list"

definition SetBaseUrl :: "string \<Rightarrow> HttpClient \<Rightarrow> HttpClient" where
  "SetBaseUrl u hc =
     hc\<lparr>base_url := (if u \<noteq> [] \<and> last u = CHR ''/'' then butlast u else u)\<rparr>"

definition response_of :: "curl_result \<Rightarrow> HttpResponse" where
  "response_of res =
     (case res of
        CurlFailed \<Rightarrow> \<lparr>status_code = 0, body = [], success = False\<rparr>
      | CurlOk st b \<Rightarrow> \<lparr>status_code = st, body = b, success = (200 \<le> st \<and> st < 300)\<rparr>)"

text \<open>\<open>HttpClient::PerformPost\<close>; \<open>res\<close> is the outcome of the transfer, if one is made.\<close>

definition PerformPost :: "string \<Rightarrow> payload \<Rightarrow> curl_result \<Rightarrow> HttpClient \<Rightarrow> HttpResponse \<times> HttpClient" where
  "PerformPost endpoint b res hc =
     (if \<not> curl_handle hc \<or> base_url hc = []
      then (\<lparr>status_code = 0, body = [], success = False\<rparr>, hc)
      else (response_of res,
            hc\<lparr>requests := requests hc @ [\<lparr>req_url = base_url hc @ endpoint, req_body = b\<rparr>]\<rparr>))"

definition PostCapture :: "string list \<Rightarrow> curl_result \<Rightarrow> HttpClient \<Rightarrow> HttpResponse \<times> HttpClient" where
  "PostCapture evs res hc =
     (if evs = [] then (\<lparr>status_code = 0, body = [], success = False\<rparr>, hc)
      else PerformPost ''/capture/'' (CaptureOf (hc_api_key hc) evs) res hc)"

definition BuildDecidePayload :: "string \<Rightarrow> (string \<times> string) list \<Rightarrow> HttpClient \<Rightarrow> string" where
  "BuildDecidePayload distinct_id properties hc =
     dump (PostHogDecidePayload_to_json
       \<lparr>dp_api_key = hc_api_key hc, dp_distinct_id = distinct_id,
        dp_properties =
          (if properties = [] then JNull
           else JObject (obj_assign [] (map (\<lambda>p. (fst p, JString (snd p))) properties)))\<rparr>)"

definition PostDecide :: "string \<Rightarrow> (string \<times> string) list \<Rightarrow> curl_result \<Rightarrow> HttpClient \<Rightarrow> HttpResponse \<times> HttpClient" where
  "PostDecide distinct_id properties res hc =
     PerformPost ''/decide/'' (Text (BuildDecidePayload distinct_id properties hc)) res hc"

definition PostSessionReplay :: "string \<Rightarrow> curl_result \<Rightarrow> HttpClient \<Rightarrow> HttpResponse \<times> HttpClient" where
  "PostSessionReplay p res hc = PerformPost ''/capture/'' (Text p) res hc"

section \<open>The feature-flag cache (feature\_flags\_manager.cc)\<close>

text \<open>\<open>std::string::find\<close> from a position, \<open>substr\<close>, and \<open>operator[]\<close>, which reads NUL at the end.\<close>

definition find_char :: "char \<Rightarrow> string \<Rightarrow> nat \<Rightarrow> nat option" where
  "find_char c s pos = List.find (\<lambda>i. s ! i = c) [pos..<length s]"

definition find_str :: "string \<Rightarrow> string \<Rightarrow> nat \<Rightarrow> nat option" where
  "find_str pat s pos =
     List.find (\<lambda>i. take (length pat) (drop i s) = pat) [pos..<Suc (length s) - length pat]"

definition substr :: "string \<Rightarrow> nat \<Rightarrow> nat \<Rightarrow> string" where
  "substr s pos n = take n (drop pos s)"

definition char_at :: "string \<Rightarrow> nat \<Rightarrow> char" where
  "char_at s i = (if i < length s then s ! i else CHR 0x00)"

definition is_blank :: "char \<Rightarrow> bool" where
  "is_blank c = (c = CHR '' '' \<or> c = CHR 0x09)"

text \<open>\<open>while (pos < length && (s[pos] == ' ' || s[pos] == '\t')) pos++\<close>\<close>

definition skip_blank :: "string \<Rightarrow> nat \<Rightarrow> nat" where
  "skip_blank s pos = pos + length (takeWhile is_blank (drop pos s))"

text \<open>The two \<open>erase\<close> calls that trim blanks at both ends.\<close>

definition trim :: "string \<Rightarrow> string" where
  "trim v = rev (dropWhile is_blank (rev (dropWhile is_blank v)))"

text \<open>The scan for the matching brace: how many characters the loop steps over.\<close>

fun brace_scan :: "string \<Rightarrow> nat \<Rightarrow> nat" where
  "brace_scan [] depth = 0"
| "brace_scan (c # cs) depth =
     (if depth = 0 then 0
      else Suc (brace_scan cs (if c = CHR ''{'' then depth + 1
                               else if c = CHR ''}'' then depth - 1 else depth)))"

definition scan_until :: "(char \<Rightarrow> bool) \<Rightarrow> string \<Rightarrow> nat \<Rightarrow> nat" where
  "scan_until stop s pos = pos + length (takeWhile (\<lambda>c. \<not> stop c) (drop pos s))"

definition ExtractJsonValue :: "string \<Rightarrow> string \<Rightarrow> string" where
  "ExtractJsonValue js key =
     (case find_str ([CHR 0x22] @ key @ [CHR 0x22]) js 0 of
        None \<Rightarrow> []
      | Some p0 \<Rightarrow>
         (case find_char CHR '':'' js p0 of
            None \<Rightarrow> []
          | Some p1 \<Rightarrow>
             let pos = skip_blank js (p1 + 1) in
             if pos \<ge> length js then []
             else if js ! pos = CHR 0x22 then
               (case find_char (CHR 0x22) js (pos + 1) of
                  None \<Rightarrow> []
                | Some e \<Rightarrow> substr js (pos + 1) (e - (pos + 1)))
             else if js ! pos = CHR ''{'' then
               substr js pos (pos + 1 + brace_scan (drop (pos + 1) js) 1 - pos)
             else
               trim (substr js pos
                 (scan_until (\<lambda>c. c = CHR '','' \<or> c = CHR ''}'' \<or> c = CHR '']'') js pos - pos))))"

text \<open>
  One turn of the loop of \<open>ParseFlagsResponse\<close> from position \<open>pos\<close>: it breaks before
  storing anything, or stores a key and a value and then breaks or goes on at a new position.
\<close>

datatype flag_step = Break | Store string string "nat option"

definition next_entry :: "string \<Rightarrow> nat \<Rightarrow> nat option" where
  "next_entry fj pos = (case find_char CHR '','' fj pos of None \<Rightarrow> None | Some q \<Rightarrow> Some (q + 1))"

definition flags_step :: "string \<Rightarrow> nat \<Rightarrow> flag_step" where
  "flags_step fj pos =
     (case find_char (CHR 0x22) fj pos of
        None \<Rightarrow> Break
      | Some ks \<Rightarrow>
         let key_start = ks + 1 in
         (case find_char (CHR 0x22) fj key_start of
            None \<Rightarrow> Break
          | Some key_end \<Rightarrow>
             let key = substr fj key_start (key_end - key_start) in
             (case find_char CHR '':'' fj key_end of
                None \<Rightarrow> Break
              | Some p \<Rightarrow>
                 let pos1 = skip_blank fj (p + 1) in
                 if pos1 \<ge> length fj then Break
                 else if fj ! pos1 = CHR 0x22 then
                   (case find_char (CHR 0x22) fj (pos1 + 1) of
                      None \<Rightarrow> Break
                    | Some value_end \<Rightarrow>
                       Store key (substr fj (pos1 + 1) (value_end - (pos1 + 1)))
                         (next_entry fj (value_end + 1)))
                 else
                   let value_end = scan_until (\<lambda>c. c = CHR '','' \<or> c = CHR ''}'') fj pos1 in
                   Store key (trim (substr fj pos1 (value_end - pos1)))
                     (next_entry fj value_end))))"

lemma find_char_Some: "find_char c s pos = Some i \<Longrightarrow> pos \<le> i \<and> i < length s \<and> s ! i = c"
  by (auto simp: find_char_def find_Some_iff)

lemma next_entry_Some: "next_entry fj pos = Some q \<Longrightarrow> pos < q \<and> q \<le> length fj"
  by (auto simp: next_entry_def split: option.splits dest: find_char_Some)

lemma skip_blank_ge: "pos \<le> skip_blank s pos"
  by (simp add: skip_blank_def)

lemma scan_until_ge: "pos \<le> scan_until stop s pos"
  by (simp add: scan_until_def)

lemma flags_step_progress:
  assumes "flags_step fj pos = Store k v (Some q)"
  shows "pos < q \<and> q \<le> length fj"
proof -
  from assms obtain ks key_end p where
    a: "find_char (CHR 0x22) fj pos = Some ks"
    and b: "find_char (CHR 0x22) fj (ks + 1) = Some key_end"
    and c: "find_char CHR '':'' fj key_end = Some p"
    by (auto simp: flags_step_def Let_def split: option.splits if_splits)
  let ?pos1 = "skip_blank fj (p + 1)"
  have le: "pos < ?pos1"
    using find_char_Some [OF a] find_char_Some [OF b] find_char_Some [OF c]
      skip_blank_ge [of "p + 1" fj] by linarith
  show ?thesis
  proof (cases "fj ! ?pos1 = CHR 0x22")
    case True
    with assms a b c obtain value_end where
      d: "find_char (CHR 0x22) fj (?pos1 + 1) = Some value_end"
      and e: "next_entry fj (value_end + 1) = Some q"
      by (auto simp: flags_step_def Let_def split: option.splits if_splits)
    show ?thesis using le find_char_Some [OF d] next_entry_Some [OF e] by linarith
  next
    case False
    with assms a b c have
      e: "next_entry fj (scan_until (\<lambda>c. c = CHR '','' \<or> c = CHR ''}'') fj ?pos1) = Some q"
      by (auto simp: flags_step_def Let_def split: option.splits if_splits)
    show ?thesis
      using le next_entry_Some [OF e]
        scan_until_ge [of ?pos1 "\<lambda>c. c = CHR '','' \<or> c = CHR ''}''" fj] by linarith
  qed
qed

text \<open>The loop \<open>while (pos < flags_json.length())\<close> over the cache.\<close>

function parse_flags_loop :: "string \<Rightarrow> nat \<Rightarrow> (string \<Rightarrow> string option) \<Rightarrow> (string \<Rightarrow> string option)" where
  "parse_flags_loop fj pos cache =
     (if \<not> pos < length fj then cache
      else case flags_step fj pos of
             Break \<Rightarrow> cache
           | Store k v None \<Rightarrow> cache(k \<mapsto> v)
           | Store k v (Some q) \<Rightarrow> parse_flags_loop fj q (cache(k \<mapsto> v)))"
  by pat_completeness auto

termination
proof (relation "measure (\<lambda>(fj, pos, cache). length fj - pos)", goal_cases)
  case 1
  show ?case by simp
next
  case (2 fj pos cache k v nxt q)
  then have "flags_step fj pos = Store k v (Some q)" by simp
  from flags_step_progress [OF this] show ?case by (simp, arith)
qed

declare parse_flags_loop.simps [simp del]

text \<open>
  \<open>FeatureFlagsManager::ParseFlagsResponse\<close> on the cache and the store both managers point
  to: the cache is cleared first; the response is persisted only when the loop was entered.
\<close>

definition ParseFlagsResponse :: "string \<Rightarrow> (string \<Rightarrow> string option) \<times> store \<Rightarrow> (string \<Rightarrow> string option) \<times> store" where
  "ParseFlagsResponse response_json cs =
     (let flags_json = ExtractJsonValue response_json ''featureFlags'' in
      if flags_json = [] \<or> char_at flags_json 0 \<noteq> CHR ''{'' then (Map.empty, snd cs)
      else (parse_flags_loop flags_json 1 Map.empty, SetFeatureFlags response_json (snd cs)))"

definition LoadCachedFlags :: "(string \<Rightarrow> string option) \<times> store \<Rightarrow> (string \<Rightarrow> string option) \<times> store" where
  "LoadCachedFlags cs =
     (let cached_flags = GetFeatureFlags (snd cs) in
      if cached_flags \<noteq> [] \<and> cached_flags \<noteq> ''{}'' then ParseFlagsResponse cached_flags cs else cs)"

text \<open>
  \<open>FeatureFlagsManager::ReloadFeatureFlags\<close>, on the cache, the store and the client; the
  result is the boolean returned.
\<close>

definition ReloadFeatureFlags ::
  "string \<Rightarrow> (string \<times> string) list \<Rightarrow> curl_result
     \<Rightarrow> (string \<Rightarrow> string option) \<times> store \<times> HttpClient
     \<Rightarrow> bool \<times> (string \<Rightarrow> string option) \<times> store \<times> HttpClient" where
  "ReloadFeatureFlags distinct_id properties res st =
     (case st of (cache, sto, hc) \<Rightarrow>
        let (response, hc') = PostDecide distinct_id properties res hc in
        if success response \<and> body response \<noteq> [] then
          (let (cache', sto') = ParseFlagsResponse (body response) (cache, sto)
           in (True, cache', sto', hc'))
        else (False, cache, sto, hc'))"

definition IsFeatureEnabled :: "(string \<Rightarrow> string option) \<Rightarrow> string \<Rightarrow> bool" where
  "IsFeatureEnabled cache flag_key =
     (case cache flag_key of
        None \<Rightarrow> False
      | Some v \<Rightarrow> v = ''true'' \<or> v = ''1'' \<or> (char_at v 0 = CHR 0x22 \<and> length v > 2))"

definition GetFeatureFlag :: "(string \<Rightarrow> string option) \<Rightarrow> string \<Rightarrow> string" where
  "GetFeatureFlag cache flag_key =
     (case cache flag_key of
        None \<Rightarrow> []
      | Some v \<Rightarrow> if length v \<ge> 2 \<and> char_at v 0 = CHR 0x22 \<and> last v = CHR 0x22
                  then substr v 1 (length v - 2) else v)"

definition GetFeatureFlagPayload :: "(string \<Rightarrow> string option) \<Rightarrow> string \<Rightarrow> string" where
  "GetFeatureFlagPayload cache flag_key = []"


text \<open>An open, empty store and a configured client, for concrete runs.\<close>

definition empty_store :: store where
  "empty_store = \<lparr>db_open = True, events = [], settings = Map.empty, super_properties = []\<rparr>"

definition test_client :: HttpClient where
  "test_client =
     \<lparr>base_url = ''http://localhost:8000'', hc_api_key = ''phc_test'', curl_handle = True,
      requests = []\<rparr>"

section \<open>The replay pipeline (session\_replay\_manager.cc)\<close>

text \<open>
  Undefined behaviour of the source stops the model with a fault: reading a vector past
  its end, using a null pointer, and building a \<open>std::string\<close> from the null pointer that
  \<open>fl_value_get_string\<close> returns for a value that is not a string.
\<close>

datatype fault = OutOfBounds | NullPointer | NotAString

definition base64_chars :: string where
  "base64_chars = ''ABCDEFGHIJKLMNOPQRSTUVWXYZabcdefghijklmnopqrstuvwxyz0123456789+/''"

definition b64_char :: "32 word \<Rightarrow> nat \<Rightarrow> char" where
  "b64_char b sh = base64_chars ! unat (drop_bit sh b AND 0x3F)"

text \<open>
  The loop \<open>for (i = 0; i < data.size() - 2; i += 3)\<close>. The bound is computed in
  \<open>size_t\<close> and is passed in already wrapped; each turn reads \<open>data[i]\<close>, \<open>data[i + 1]\<close>
  and \<open>data[i + 2]\<close>. The result is the index after the loop and the text written so far.
\<close>

function b64_loop :: "8 word list \<Rightarrow> nat \<Rightarrow> nat \<Rightarrow> string \<Rightarrow> fault + (nat \<times> string)" where
  "b64_loop d bound i acc =
     (if i < bound then
        (if i + 2 < length d then
           (let b = (push_bit 16 (ucast (d ! i)) OR push_bit 8 (ucast (d ! (i + 1)))
                      OR ucast (d ! (i + 2)) :: 32 word)
            in b64_loop d bound (i + 3)
                 (acc @ [b64_char b 18, b64_char b 12, b64_char b 6, b64_char b 0]))
         else Inl OutOfBounds)
      else Inr (i, acc))"
  by pat_completeness auto

termination
  by (relation "measure (\<lambda>(d, bound, i, acc). length d - i)") auto

declare b64_loop.simps [simp del]

definition Base64Encode :: "8 word list \<Rightarrow> fault + string" where
  "Base64Encode d =
     (case b64_loop d ((length d + 2 ^ 64 - 2) mod 2 ^ 64) 0 [] of
        Inl f \<Rightarrow> Inl f
      | Inr (i, acc) \<Rightarrow>
          if i < length d then
            (let b0 = (push_bit 16 (ucast (d ! i)) :: 32 word);
                 b = (if i + 1 < length d then b0 OR push_bit 8 (ucast (d ! (i + 1))) else b0)
             in Inr (acc @ [b64_char b 18, b64_char b 12]
                         @ (if i + 1 < length d then [b64_char b 6] else ''='') @ ''=''))
          else Inr acc)"

text \<open>
  Base64 decoding (RFC 4648), the reader's side of the round trip: the position of a
  character in the alphabet, four characters joined into 24 bits, and the bytes of each
  group, one or two at a padded end. \<open>b64_groups\<close> is the encoding written group by group.
\<close>

definition b64_index :: "char \<Rightarrow> 32 word" where
  "b64_index c = of_nat (length (takeWhile (\<lambda>x. x \<noteq> c) base64_chars))"

definition b64_word :: "char \<Rightarrow> char \<Rightarrow> char \<Rightarrow> char \<Rightarrow> 32 word" where
  "b64_word c0 c1 c2 c3 =
     push_bit 18 (b64_index c0) OR push_bit 12 (b64_index c1)
       OR (if c2 = CHR ''='' then 0 else push_bit 6 (b64_index c2))
       OR (if c3 = CHR ''='' then 0 else b64_index c3)"

fun Base64Decode :: "string \<Rightarrow> 8 word list" where
  "Base64Decode (c0 # c1 # c2 # c3 # rest) =
     (let w = b64_word c0 c1 c2 c3 in
      if c2 = CHR ''='' then [ucast (drop_bit 16 w)]
      else if c3 = CHR ''='' then [ucast (drop_bit 16 w), ucast (drop_bit 8 w)]
      else [ucast (drop_bit 16 w), ucast (drop_bit 8 w), ucast w] @ Base64Decode rest)"
| "Base64Decode cs = []"

fun b64_groups :: "8 word list \<Rightarrow> string" where
  "b64_groups (a # b # c # rest) =
     (let w = (push_bit 16 (ucast a) OR push_bit 8 (ucast b) OR ucast c :: 32 word)
      in [b64_char w 18, b64_char w 12, b64_char w 6, b64_char w 0] @ b64_groups rest)"
| "b64_groups [a, b] =
     (let w = (push_bit 16 (ucast a) OR push_bit 8 (ucast b) :: 32 word)
      in [b64_char w 18, b64_char w 12, b64_char w 6, CHR ''=''])"
| "b64_groups [a] =
     (let w = (push_bit 16 (ucast a) :: 32 word)
      in [b64_char w 18, b64_char w 12, CHR ''='', CHR ''=''])"
| "b64_groups [] = []"

text \<open>The path \<open>properties.$snapshot_data[0].data.wireframes[0].base64\<close> of a wire event.\<close>

definition envelope_base64 :: "json \<Rightarrow> json option" where
  "envelope_base64 ev =
     Option.bind (jfield ''properties'' ev) (\<lambda>p.
     Option.bind (jfield ''$snapshot_data'' p) (\<lambda>sd.
     Option.bind (jindex 0 sd) (\<lambda>s0.
     Option.bind (jfield ''data'' s0) (\<lambda>dt.
     Option.bind (jfield ''wireframes'' dt) (\<lambda>wfs.
     Option.bind (jindex 0 wfs) (\<lambda>wf. jfield ''base64'' wf))))))"

text \<open>\<open>ResizeImage\<close> returns the image and the original dimensions on every path.\<close>

definition ResizeImage :: "int \<Rightarrow> 8 word list \<Rightarrow> int \<Rightarrow> int \<Rightarrow> 8 word list \<times> int \<times> int" where
  "ResizeImage max_image_dimension image_data original_width original_height =
     (image_data, original_width, original_height)"

definition be32 :: "8 word list \<Rightarrow> nat \<Rightarrow> int" where
  "be32 d i =
     sint (push_bit 24 (ucast (d ! i)) OR push_bit 16 (ucast (d ! (i + 1)))
             OR push_bit 8 (ucast (d ! (i + 2))) OR ucast (d ! (i + 3)) :: 32 word)"

definition ParsePngDimensions :: "8 word list \<Rightarrow> (int \<times> int) option" where
  "ParsePngDimensions png =
     (if length png < 24 then None
      else if png ! 0 \<noteq> 0x89 \<or> png ! 1 \<noteq> 0x50 \<or> png ! 2 \<noteq> 0x4E \<or> png ! 3 \<noteq> 0x47 then None
      else let w = be32 png 16; h = be32 png 20 in
        if w > 0 \<and> h > 0 \<and> w < 100000 \<and> h < 100000 then Some (w, h) else None)"

text \<open>
  The image libraries behind \<open>HAVE_JPEG\<close>: decoding a PNG to RGB with its dimensions may
  fail; encoding RGB to JPEG at a quality gives bytes.
\<close>

record image_codec =
  png_decode :: "8 word list \<Rightarrow> (8 word list \<times> int \<times> int) option"
  jpeg_encode :: "8 word list \<Rightarrow> int \<Rightarrow> int \<Rightarrow> int \<Rightarrow> 8 word list"

text \<open>\<open>CompressToJpeg\<close>; the codec is \<open>None\<close> in a build without \<open>HAVE_JPEG\<close>.\<close>

definition CompressToJpeg :: "image_codec option \<Rightarrow> int \<Rightarrow> 8 word list \<Rightarrow> int \<Rightarrow> int \<Rightarrow> 8 word list" where
  "CompressToJpeg codec quality png_data width height =
     (case codec of
        None \<Rightarrow> png_data
      | Some c \<Rightarrow>
          if (width \<le> 0 \<or> height \<le> 0) \<and> ParsePngDimensions png_data = None then png_data
          else (case png_decode c png_data of
                  None \<Rightarrow> png_data
                | Some (rgb, w, h) \<Rightarrow> jpeg_encode c rgb w h quality))"

record SnapshotData =
  sn_image_base64 :: string
  sn_id :: int
  sn_x :: int
  sn_y :: int
  sn_width :: int
  sn_height :: int
  sn_timestamp :: int

record MetaEventData =
  me_width :: int
  me_height :: int
  me_screen :: string
  me_timestamp :: int

text \<open>
  The manager. Its two pointers are the flags \<open>rm_http\<close> and \<open>rm_storage\<close> (non-null or
  null); the client and the store they point to are the plugin's and are passed along.
\<close>

record SessionReplayManager =
  rm_http :: bool
  rm_storage :: bool
  rm_api_key :: string
  snapshot_buffer :: "SnapshotData list"
  meta_event_buffer :: "MetaEventData list"
  rm_should_flush :: bool
  is_active :: bool
  compression_quality :: int
  batch_size :: int
  batch_interval_ms :: int
  max_image_dimension :: int
  last_batch_time :: int
  meta_event_sent :: bool

definition new_SessionReplayManager :: "string \<Rightarrow> int \<Rightarrow> SessionReplayManager" where
  "new_SessionReplayManager key steady_now =
     \<lparr>rm_http = True, rm_storage = True, rm_api_key = key, snapshot_buffer = [],
      meta_event_buffer = [], rm_should_flush = True, is_active = False,
      compression_quality = 75, batch_size = 10, batch_interval_ms = 5000,
      max_image_dimension = 0, last_batch_time = steady_now, meta_event_sent = False\<rparr>"

definition AddSnapshot ::
  "image_codec option \<Rightarrow> int \<Rightarrow> 8 word list \<Rightarrow> int \<Rightarrow> int \<Rightarrow> int \<Rightarrow> int \<Rightarrow> int
     \<Rightarrow> SessionReplayManager \<Rightarrow> fault + SessionReplayManager" where
  "AddSnapshot codec now_ms png_data i x y width height rm =
     (if \<not> is_active rm then Inr rm
      else
        let (processed_data, final_width, final_height) =
              ResizeImage (max_image_dimension rm) png_data width height;
            compressed = CompressToJpeg codec (compression_quality rm) processed_data
                           final_width final_height
        in case Base64Encode compressed of
             Inl f \<Rightarrow> Inl f
           | Inr base64 \<Rightarrow>
               Inr (rm\<lparr>snapshot_buffer := snapshot_buffer rm @
                      [\<lparr>sn_image_base64 = base64, sn_id = i, sn_x = x, sn_y = y,
                        sn_width = final_width, sn_height = final_height,
                        sn_timestamp = now_ms\<rparr>]\<rparr>))"


text \<open>The properties every replay event carries, before \<open>$snapshot_data\<close> is set.\<close>

definition replay_properties :: "string \<Rightarrow> int \<Rightarrow> int \<Rightarrow> (string \<times> json) list" where
  "replay_properties session_id width height =
     obj_assign []
       [(''$snapshot_source'', JString ''mobile''),
        (''$session_id'', JString session_id),
        (''$window_id'', JString ''main''),
        (''$lib'', JString ''posthog-flutter''),
        (''$lib_version'', JString ''5.9.0''),
        (''$device_type'', JString ''Mobile''),
        (''$os'', JString ''Linux''),
        (''$screen_width'', JInt width),
        (''$screen_height'', JInt height)]"

definition meta_replay_event :: "string \<Rightarrow> string \<Rightarrow> MetaEventData \<Rightarrow> SessionReplayEvent" where
  "meta_replay_event distinct_id session_id meta =
     \<lparr>sr_event = ''$snapshot'', sr_distinct_id = distinct_id,
      sr_properties =
        JObject (obj_assign (replay_properties session_id (me_width meta) (me_height meta))
          [(''$snapshot_data'',
            JArray [JObject (obj_assign []
              [(''type'', JInt 4),
               (''data'', JObject (obj_assign []
                  [(''href'', JString (me_screen meta)),
                   (''width'', JInt (me_width meta)),
                   (''height'', JInt (me_height meta))])),
               (''timestamp'', JInt (me_timestamp meta))])])]),
      sr_timestamp = me_timestamp meta\<rparr>"

definition snapshot_replay_event :: "string \<Rightarrow> string \<Rightarrow> SnapshotData \<Rightarrow> SessionReplayEvent" where
  "snapshot_replay_event distinct_id session_id snapshot =
     (let wireframe =
            \<lparr>wf_id = sn_id snapshot, wf_x = sn_x snapshot, wf_y = sn_y snapshot,
             wf_width = sn_width snapshot, wf_height = sn_height snapshot,
             wf_type = ''screenshot'', wf_base64 = sn_image_base64 snapshot,
             wf_style = JObject []\<rparr>;
          snapshot_data =
            \<lparr>sd_initialOffset = JObject (obj_assign [] [(''top'', JInt 0), (''left'', JInt 0)]),
             sd_wireframes = [wireframe], sd_timestamp = sn_timestamp snapshot\<rparr>;
          snapshot_event =
            \<lparr>se_type = 2, se_data = snapshot_data, se_timestamp = sn_timestamp snapshot\<rparr>
      in \<lparr>sr_event = ''$snapshot'', sr_distinct_id = distinct_id,
          sr_properties =
            JObject (obj_assign
              (replay_properties session_id (sn_width snapshot) (sn_height snapshot))
              [(''$snapshot_data'', JArray [SessionReplaySnapshotEvent_to_json snapshot_event])]),
          sr_timestamp = sn_timestamp snapshot\<rparr>)"

text \<open>
  \<open>SendBatch\<close>. \<open>now_ms\<close> is the system clock and \<open>rnd\<close> the draw of
  \<open>uniform_int_distribution(1000, 9999)\<close> for a generated id; \<open>res\<close> is the outcome of the
  transfer.
\<close>

definition replay_distinct_id :: "int \<Rightarrow> int \<Rightarrow> SessionReplayManager \<Rightarrow> store \<Rightarrow> string \<times> store" where
  "replay_distinct_id now_ms rnd rm sto =
     (let (d, sto') =
            (if rm_storage rm then
               (let d0 = GetDistinctId sto in
                if d0 = [] then
                  (let d1 = to_string now_ms @ ''-'' @ to_string rnd in (d1, SetDistinctId d1 sto))
                else (d0, sto))
             else (''replay_'' @ to_string now_ms, sto))
      in (if d = [] then ''unknown_user'' else d, sto'))"

definition replay_session_id :: "int \<Rightarrow> SessionReplayManager \<Rightarrow> store \<Rightarrow> string" where
  "replay_session_id now_ms rm sto =
     (let s = (if rm_storage rm then
                 (let s0 = GetSessionId sto in
                  if s0 = [] then ''session_'' @ to_string now_ms else s0)
               else ''session_'' @ to_string now_ms)
      in if s = [] then ''unknown_session'' else s)"

definition replay_batch ::
  "string \<Rightarrow> string \<Rightarrow> string \<Rightarrow> SnapshotData list \<Rightarrow> MetaEventData list \<Rightarrow> SessionReplayBatch" where
  "replay_batch key distinct_id session_id snapshots meta_events =
     \<lparr>rb_api_key = key,
      rb_batch = map (meta_replay_event distinct_id session_id) meta_events
                 @ map (snapshot_replay_event distinct_id session_id) snapshots\<rparr>"

definition SendBatch ::
  "int \<Rightarrow> int \<Rightarrow> curl_result \<Rightarrow> SnapshotData list \<Rightarrow> MetaEventData list
     \<Rightarrow> SessionReplayManager \<Rightarrow> store \<times> HttpClient \<Rightarrow> store \<times> HttpClient" where
  "SendBatch now_ms rnd res snapshots meta_events rm sh =
     (case sh of (sto, hc) \<Rightarrow>
        if snapshots = [] \<and> meta_events = [] then (sto, hc)
        else if \<not> rm_http rm then (sto, hc)
        else
          let (distinct_id, sto') = replay_distinct_id now_ms rnd rm sto;
              session_id = replay_session_id now_ms rm sto';
              payload = dump (SessionReplayBatch_to_json
                          (replay_batch (rm_api_key rm) distinct_id session_id snapshots meta_events))
          in (sto', snd (PostSessionReplay payload res hc)))"

text \<open>
  One turn of the loop of \<open>FlushThread\<close>, after its 100 ms sleep. \<open>steady_now\<close> is the
  steady clock in milliseconds. The first component tells whether the loop goes on
  (\<open>continue\<close> or the end of the body) or is left by \<open>break\<close>; the \<open>while\<close> condition is
  \<open>rm_should_flush\<close>.
\<close>

definition should_send :: "int \<Rightarrow> SessionReplayManager \<Rightarrow> bool" where
  "should_send steady_now rm =
     (length (snapshot_buffer rm) \<ge> nat (batch_size rm mod 2 ^ 64)
      \<or> (steady_now - last_batch_time rm \<ge> batch_interval_ms rm \<and> snapshot_buffer rm \<noteq> []))"

definition FlushThread_turn ::
  "int \<Rightarrow> int \<Rightarrow> int \<Rightarrow> curl_result \<Rightarrow> SessionReplayManager \<times> store \<times> HttpClient
     \<Rightarrow> bool \<times> SessionReplayManager \<times> store \<times> HttpClient" where
  "FlushThread_turn steady_now now_ms rnd res st =
     (case st of (rm, sto, hc) \<Rightarrow>
        if \<not> rm_should_flush rm \<or> \<not> is_active rm then (True, rm, sto, hc)
        else if \<not> rm_http rm then (False, rm, sto, hc)
        else if should_send steady_now rm then
          (let rm' = rm\<lparr>snapshot_buffer := [], meta_event_buffer := [],
                        last_batch_time := steady_now\<rparr>;
               (sto', hc') = SendBatch now_ms rnd res (snapshot_buffer rm) (meta_event_buffer rm)
                               rm' (sto, hc)
           in (True, rm', sto', hc'))
        else (True, rm, sto, hc))"

text \<open>\<open>SessionReplayManager::Flush\<close>.\<close>

definition Flush ::
  "int \<Rightarrow> int \<Rightarrow> curl_result \<Rightarrow> SessionReplayManager \<times> store \<times> HttpClient
     \<Rightarrow> SessionReplayManager \<times> store \<times> HttpClient" where
  "Flush now_ms rnd res st =
     (case st of (rm, sto, hc) \<Rightarrow>
        if \<not> rm_http rm then (rm, sto, hc)
        else if snapshot_buffer rm \<noteq> [] \<or> meta_event_buffer rm \<noteq> [] then
          (let rm' = rm\<lparr>snapshot_buffer := [], meta_event_buffer := []\<rparr>;
               (sto', hc') = SendBatch now_ms rnd res (snapshot_buffer rm) (meta_event_buffer rm)
                               rm' (sto, hc)
           in (rm', sto', hc'))
        else (rm, sto, hc))"

text \<open>
  Running managers for concrete runs: as \<open>setup\<close> leaves one; with one meta event
  buffered and no frame; and the same with batch size 0.
\<close>

definition active_manager :: SessionReplayManager where
  "active_manager = (new_SessionReplayManager ''phc_test'' 0)\<lparr>is_active := True\<rparr>"

definition meta_waiting_manager :: SessionReplayManager where
  "meta_waiting_manager =
     active_manager
       \<lparr>meta_event_buffer := [\<lparr>me_width = 800, me_height = 600, me_screen = ''home'',
                               me_timestamp = 1700000000000\<rparr>]\<rparr>"

definition meta_only_manager :: SessionReplayManager where
  "meta_only_manager = meta_waiting_manager\<lparr>batch_size := 0\<rparr>"

section \<open>The plugin (posthog\_flutter\_plugin.cc)\<close>

text \<open>The values of the platform channel.\<close>

datatype FlValue = FlNull | FlBool bool | FlInt int | FlFloat string | FlString string
  | FlUint8List "8 word list" | FlList "FlValue list" | FlMap "(FlValue \<times> FlValue) list"
  | FlOther

text \<open>\<open>fl_value_lookup_string\<close>: the value under a string key of a map, null otherwise.\<close>

fun fl_value_lookup_string :: "FlValue \<Rightarrow> string \<Rightarrow> FlValue option" where
  "fl_value_lookup_string (FlMap kvs) k = map_of kvs (FlString k)"
| "fl_value_lookup_string v k = None"



fun fl_value_to_json_obj :: "FlValue \<Rightarrow> json" where
  "fl_value_to_json_obj FlNull = JNull"
| "fl_value_to_json_obj (FlBool b) = JBool b"
| "fl_value_to_json_obj (FlInt i) = JInt i"
| "fl_value_to_json_obj (FlFloat t) = JFloat t"
| "fl_value_to_json_obj (FlString s) = JString s"
| "fl_value_to_json_obj (FlUint8List bs) = JString ''<binary>''"
| "fl_value_to_json_obj (FlList vs) = JArray (map fl_value_to_json_obj vs)"
| "fl_value_to_json_obj (FlMap kvs) = JObject []"
| "fl_value_to_json_obj FlOther = JString ''<unknown>''"

text \<open>
  What a handler takes from outside: the clocks, the random draws behind the three UUIDs
  it may generate, the JSON library's parser, the image libraries, and the outcome of the
  one POST it may make.
\<close>

record env =
  env_now_ms :: int
  env_now_s :: int
  env_steady_ms :: int
  env_row_draw :: "nat \<Rightarrow> 4 word"
  env_id_draw :: "nat \<Rightarrow> 4 word"
  env_id_draw2 :: "2 word"
  env_sid_draw :: "nat \<Rightarrow> 4 word"
  env_sid_draw2 :: "2 word"
  env_rnd_1000_9999 :: int
  env_json_parse :: "string \<Rightarrow> json option"
  env_codec :: "image_codec option"
  env_post_result :: curl_result

text \<open>
  The plugin's \<open>generate_uuid\<close>: as the store's, but position 12 is the digit 4 and position
  16 is a draw of \<open>uniform_int_distribution(8, 11)\<close>.
\<close>

definition generate_uuid :: "(nat \<Rightarrow> 4 word) \<Rightarrow> 2 word \<Rightarrow> string" where
  "generate_uuid draw draw2 =
     concat (map (\<lambda>i. (if i = 8 \<or> i = 12 \<or> i = 16 \<or> i = 20 then ''-'' else [])
                       @ (if i = 12 then ''4''
                          else if i = 16 then [hex_digit (8 + ucast draw2)]
                          else [hex_digit (draw i)]))
                 [0..<32])"

definition get_or_create_distinct_id :: "string \<Rightarrow> store \<Rightarrow> string \<times> store" where
  "get_or_create_distinct_id fresh sto =
     (let d = GetDistinctId sto in if d = [] then (fresh, SetDistinctId fresh sto) else (d, sto))"

definition get_or_create_session_id :: "string \<Rightarrow> store \<Rightarrow> string \<times> store" where
  "get_or_create_session_id fresh sto =
     (let d = GetSessionId sto in if d = [] then (fresh, SetSessionId fresh sto) else (d, sto))"

record PosthogFlutterPlugin =
  storage_manager :: "store option"
  http_client :: "HttpClient option"
  feature_flags_manager :: "(string \<Rightarrow> string option) option"
  session_replay_manager :: "SessionReplayManager option"
  api_key :: string
  host :: string
  flush_at :: int
  max_queue_size :: int
  max_batch_size :: int
  flush_interval_seconds :: int
  debug :: bool
  opt_out :: bool
  initialized :: bool
  session_replay_enabled :: bool
  should_flush :: bool

text \<open>
  The loop that separates \<open>id|json\<close>: an entry without a bar is skipped; the id is the text
  before the first bar.
\<close>

definition split_events :: "string list \<Rightarrow> string list \<times> string list" where
  "split_events evs =
     foldl (\<lambda>(event_ids, event_jsons) e.
              case find_char CHR ''|'' e 0 of
                None \<Rightarrow> (event_ids, event_jsons)
              | Some pos \<Rightarrow> (event_ids @ [substr e 0 pos],
                             event_jsons @ [substr e (pos + 1) (length e)]))
           ([], []) evs"

text \<open>Post the batch and, on success, remove its ids: the core of the three flushes.\<close>

definition post_and_remove ::
  "curl_result \<Rightarrow> string list \<Rightarrow> string list \<Rightarrow> store \<times> HttpClient \<Rightarrow> store \<times> HttpClient" where
  "post_and_remove res event_ids event_jsons sh =
     (case sh of (sto, hc) \<Rightarrow>
        let (response, hc') = PostCapture event_jsons res hc in
        if success response then (snd (RemoveEvents event_ids sto), hc') else (sto, hc'))"

definition flush_batch :: "curl_result \<Rightarrow> int \<Rightarrow> store \<times> HttpClient \<Rightarrow> store \<times> HttpClient" where
  "flush_batch res max_batch sh =
     (let (event_ids, event_jsons) = split_events (GetQueuedEvents max_batch (fst sh)) in
      if event_jsons \<noteq> [] then post_and_remove res event_ids event_jsons sh else sh)"


definition lib_properties :: "(string \<times> json) list" where
  "lib_properties =
     [(''$lib'', JString ''posthog-flutter''),
      (''$lib_version'', JString ''5.9.0''),
      (''$device_type'', JString ''Mobile''),
      (''$os'', JString ''Linux''),
      (''$os_version'', JString ''Unknown''),
      (''$screen_width'', JInt 1024),
      (''$screen_height'', JInt 600)]"

definition session_properties :: "string \<Rightarrow> (string \<times> json) list" where
  "session_properties session_id =
     (if session_id \<noteq> [] then [(''$session_id'', JString session_id)] else [])
     @ [(''$window_id'', JString ''main'')]"

text \<open>The properties of a captured event, in the order \<open>handle_capture\<close> assigns them.\<close>

definition caller_properties :: "FlValue \<Rightarrow> (string \<times> json) list" where
  "caller_properties args =
     (case fl_value_lookup_string args ''properties'' of
        Some (FlMap kvs) \<Rightarrow>
          (case map_of kvs (FlString ''$elements'') of
             Some (FlList vs) \<Rightarrow> [(''$elements'', fl_value_to_json_obj (FlList vs))] | _ \<Rightarrow> [])
          @ (case map_of kvs (FlString ''$event_type'') of
               Some (FlString s) \<Rightarrow> [(''$event_type'', JString s)] | _ \<Rightarrow> [])
          @ (case map_of kvs (FlString ''$viewport_width'') of
               Some (FlInt i) \<Rightarrow> [(''$viewport_width'', JInt i)] | _ \<Rightarrow> [])
          @ (case map_of kvs (FlString ''$viewport_height'') of
               Some (FlInt i) \<Rightarrow> [(''$viewport_height'', JInt i)] | _ \<Rightarrow> [])
          @ (case map_of kvs (FlString ''$screen_name'') of
               Some (FlString s) \<Rightarrow> [(''$screen_name'', JString s)] | _ \<Rightarrow> [])
      | _ \<Rightarrow> [])"

definition merge_missing :: "json \<Rightarrow> (string \<times> json) list \<Rightarrow> (string \<times> json) list" where
  "merge_missing event_props properties =
     (case event_props of
        JObject items \<Rightarrow>
          foldl (\<lambda>acc kv. if map_of acc (fst kv) = None then obj_insert (fst kv) (snd kv) acc else acc)
                properties items
      | _ \<Rightarrow> properties)"

definition capture_properties :: "env \<Rightarrow> string \<Rightarrow> (string \<times> string) list \<Rightarrow> FlValue \<Rightarrow> (string \<times> json) list" where
  "capture_properties e session_id super_props args =
     (let properties =
            obj_assign []
              (lib_properties @ session_properties session_id
               @ map (\<lambda>prop. (fst prop, case env_json_parse e (snd prop) of
                                           Some v \<Rightarrow> v | None \<Rightarrow> JString (snd prop))) super_props
               @ caller_properties args)
      in case fl_value_lookup_string args ''properties'' of
           Some (FlMap kvs) \<Rightarrow> merge_missing (fl_value_to_json_obj (FlMap kvs)) properties
         | _ \<Rightarrow> properties)"

definition handle_capture :: "env \<Rightarrow> FlValue \<Rightarrow> PosthogFlutterPlugin \<Rightarrow> fault + PosthogFlutterPlugin" where
  "handle_capture e args p =
     (if \<not> initialized p \<or> opt_out p then Inr p
      else case fl_value_lookup_string args ''eventName'' of
        Some (FlString event_name) \<Rightarrow>
          (case storage_manager p of
             None \<Rightarrow> Inl NullPointer
           | Some sto \<Rightarrow>
               let (distinct_id, sto1) =
                     get_or_create_distinct_id (generate_uuid (env_id_draw e) (env_id_draw2 e)) sto;
                   (session_id, sto2) =
                     get_or_create_session_id (generate_uuid (env_sid_draw e) (env_sid_draw2 e)) sto1;
                   event = \<lparr>ev_event = event_name, ev_distinct_id = distinct_id,
                            ev_timestamp = env_now_ms e,
                            ev_properties = JObject (capture_properties e session_id
                                              (GetAllSuperProperties sto2) args)\<rparr>;
                   sto3 = snd (EnqueueEvent (env_row_draw e) (env_now_s e)
                                 (dump (PostHogEvent_to_json event)) sto2)
               in if GetQueueSize sto3 \<ge> flush_at p then
                    (if snd (split_events (GetQueuedEvents (max_batch_size p) sto3)) \<noteq> [] then
                       (case http_client p of
                          None \<Rightarrow> Inl NullPointer
                        | Some hc \<Rightarrow>
                            let (sto4, hc') = flush_batch (env_post_result e) (max_batch_size p) (sto3, hc)
                            in Inr (p\<lparr>storage_manager := Some sto4, http_client := Some hc'\<rparr>))
                     else Inr (p\<lparr>storage_manager := Some sto3\<rparr>))
                  else Inr (p\<lparr>storage_manager := Some sto3\<rparr>))
      | _ \<Rightarrow> Inr p)"

definition handle_identify :: "env \<Rightarrow> FlValue \<Rightarrow> PosthogFlutterPlugin \<Rightarrow> fault + PosthogFlutterPlugin" where
  "handle_identify e args p =
     (if \<not> initialized p \<or> opt_out p then Inr p
      else case fl_value_lookup_string args ''userId'' of
        Some (FlString user_id) \<Rightarrow>
          (case storage_manager p of
             None \<Rightarrow> Inl NullPointer
           | Some sto \<Rightarrow>
               let sto1 = SetDistinctId user_id sto;
                   (session_id, sto2) =
                     get_or_create_session_id (generate_uuid (env_sid_draw e) (env_sid_draw2 e)) sto1;
                   event = \<lparr>ev_event = ''$identify'', ev_distinct_id = user_id,
                            ev_timestamp = env_now_ms e,
                            ev_properties = JObject (obj_assign [] (session_properties session_id))\<rparr>
               in Inr (p\<lparr>storage_manager :=
                         Some (snd (EnqueueEvent (env_row_draw e) (env_now_s e)
                                      (dump (PostHogEvent_to_json event)) sto2))\<rparr>))
      | _ \<Rightarrow> Inr p)"


text \<open>The \<open>alias\<close> branch of \<open>handle_method_call\<close>.\<close>

definition handle_alias :: "env \<Rightarrow> FlValue \<Rightarrow> PosthogFlutterPlugin \<Rightarrow> fault + PosthogFlutterPlugin" where
  "handle_alias e args p =
     (case fl_value_lookup_string args ''alias'' of
        Some (FlString new_id) \<Rightarrow>
          (case storage_manager p of
             None \<Rightarrow> Inr p
           | Some sto \<Rightarrow>
               let (old_id, sto1) =
                     get_or_create_distinct_id (generate_uuid (env_id_draw e) (env_id_draw2 e)) sto;
                   event = \<lparr>ev_event = ''$create_alias'', ev_distinct_id = new_id,
                            ev_timestamp = env_now_ms e,
                            ev_properties = JObject (obj_assign [] [(''alias'', JString old_id)])\<rparr>;
                   sto2 = snd (EnqueueEvent (env_row_draw e) (env_now_s e)
                                 (dump (PostHogEvent_to_json event)) sto1)
               in Inr (p\<lparr>storage_manager := Some (SetDistinctId new_id sto2)\<rparr>))
      | _ \<Rightarrow> Inr p)"





text \<open>The \<open>createNewSession\<close> branch.\<close>

definition handle_createNewSession :: "env \<Rightarrow> PosthogFlutterPlugin \<Rightarrow> fault + PosthogFlutterPlugin" where
  "handle_createNewSession e p =
     (case storage_manager p of
        Some sto \<Rightarrow>
          if \<not> initialized p then Inr p
          else
            (let session_id = generate_uuid (env_sid_draw e) (env_sid_draw2 e);
                 sto1 = SetSessionId session_id sto;
                 (distinct_id, sto2) =
                   get_or_create_distinct_id (generate_uuid (env_id_draw e) (env_id_draw2 e)) sto1;
                 event = \<lparr>ev_event = ''$screen'', ev_distinct_id = distinct_id,
                          ev_timestamp = env_now_ms e,
                          ev_properties = JObject (obj_assign []
                            [(''$screen_name'', JString ''Session Started''),
                             (''$session_id'', JString session_id),
                             (''$window_id'', JString ''main''),
                             (''$lib'', JString ''posthog-flutter''),
                             (''$lib_version'', JString ''5.9.0''),
                             (''$device_type'', JString ''Mobile''),
                             (''$os'', JString ''Linux'')])\<rparr>
             in Inr (p\<lparr>storage_manager :=
                       Some (snd (EnqueueEvent (env_row_draw e) (env_now_s e)
                                    (dump (PostHogEvent_to_json event)) sto2))\<rparr>))
      | None \<Rightarrow> Inr p)"

text \<open>The \<open>enable\<close> and \<open>disable\<close> branches.\<close>

definition handle_set_opt_out :: "bool \<Rightarrow> PosthogFlutterPlugin \<Rightarrow> PosthogFlutterPlugin" where
  "handle_set_opt_out b p =
     p\<lparr>opt_out := b, storage_manager := map_option (SetOptOut b) (storage_manager p)\<rparr>"




text \<open>
  The ids of the table are pairwise different (the primary key) and hold no bar, as every
  id that \<open>GenerateUUID\<close> makes.
\<close>

definition store_inv :: "store \<Rightarrow> bool" where
  "store_inv s =
     (distinct (map row_id (events s)) \<and> (\<forall>r \<in> set (events s). CHR ''|'' \<notin> set (row_id r)))"




text \<open>An environment and a plugin as a successful \<open>setup\<close> leaves it, for concrete runs.\<close>

definition test_env :: env where
  "test_env =
     \<lparr>env_now_ms = 1700000000123, env_now_s = 1700000000, env_steady_ms = 100,
      env_row_draw = (\<lambda>i. 0), env_id_draw = (\<lambda>i. 1), env_id_draw2 = 0,
      env_sid_draw = (\<lambda>i. 2), env_sid_draw2 = 0, env_rnd_1000_9999 = 1234,
      env_json_parse = (\<lambda>s. None), env_codec = None, env_post_result = CurlOk 200 ''ok''\<rparr>"

definition running_store :: store where
  "running_store =
     empty_store\<lparr>settings := [''distinct_id'' \<mapsto> ''u1'', ''session_id'' \<mapsto> ''s1'']\<rparr>"

definition running_plugin :: PosthogFlutterPlugin where
  "running_plugin =
     \<lparr>storage_manager = Some running_store, http_client = Some test_client,
      feature_flags_manager = Some Map.empty, session_replay_manager = None,
      api_key = ''phc_test'', host = ''http://localhost:8000'', flush_at = 20,
      max_queue_size = 1000, max_batch_size = 50, flush_interval_seconds = 30,
      debug = False, opt_out = False, initialized = True, session_replay_enabled = False,
      should_flush = True\<rparr>"




text \<open>The event texts in the store, and the bodies posted, after a handler has run.\<close>

definition stored_events :: "fault + PosthogFlutterPlugin \<Rightarrow> string list" where
  "stored_events r =
     (case r of
        Inr p \<Rightarrow> (case storage_manager p of Some sto \<Rightarrow> map event_json (events sto) | None \<Rightarrow> [])
      | Inl f \<Rightarrow> [])"

definition posted_bodies :: "fault + PosthogFlutterPlugin \<Rightarrow> payload list" where
  "posted_bodies r =
     (case r of
        Inr p \<Rightarrow> (case http_client p of Some hc \<Rightarrow> map req_body (requests hc) | None \<Rightarrow> [])
      | Inl f \<Rightarrow> [])"

section \<open>Properties of the Store\<close>

subsection \<open>Draining\<close>







subsection \<open>Removing\<close>




section \<open>Properties of the wire structures\<close>

lemma map_of_obj_insert: "map_of (obj_insert k v kvs) = (map_of kvs)(k \<mapsto> v)"
  by (induction kvs) auto

lemma digit_char:
  assumes "d < 10"
  shows "is_digit (''0123456789'' ! d) \<and> digit_val (''0123456789'' ! d) = d"
proof -
  from assms have "d \<in> {0, 1, 2, 3, 4, 5, 6, 7, 8, 9}" by auto
  then show ?thesis by (auto simp: is_digit_def digit_val_def)
qed

lemma nat_to_string_digits: "list_all is_digit (nat_to_string n) \<and> nat_to_string n \<noteq> []"
proof (induction n rule: nat_to_string.induct)
  case (1 n)
  show ?case
  proof (cases "n < 10")
    case True
    then show ?thesis using digit_char [of n] by (simp add: nat_to_string.simps [of n])
  next
    case False
    then show ?thesis using 1 digit_char [of "n mod 10"] by (simp add: nat_to_string.simps [of n])
  qed
qed

lemma digits_value_snoc: "digits_value (ds @ [c]) = 10 * digits_value ds + digit_val c"
  by (simp add: digits_value_def)

lemma digits_value_nat_to_string: "digits_value (nat_to_string n) = n"
proof (induction n rule: nat_to_string.induct)
  case (1 n)
  show ?case
  proof (cases "n < 10")
    case True
    then show ?thesis using digit_char [of n]
      by (simp add: nat_to_string.simps [of n] digits_value_def)
  next
    case False
    then show ?thesis using 1 digit_char [of "n mod 10"]
      by (simp add: nat_to_string.simps [of n] digits_value_snoc)
  qed
qed

lemma hd_nat_to_string: "hd (nat_to_string n) \<noteq> CHR ''-''"
proof -
  have "is_digit (hd (nat_to_string n))"
    using nat_to_string_digits [of n] by (cases "nat_to_string n") auto
  then show ?thesis by (auto simp: is_digit_def)
qed

lemma to_string_decimal: "is_decimal (to_string t) \<and> decimal_value (to_string t) = t"
proof (cases "t < 0")
  case True
  then show ?thesis
    using nat_to_string_digits [of "nat (- t)"] digits_value_nat_to_string [of "nat (- t)"]
    by (simp add: to_string_def is_decimal_def decimal_value_def)
next
  case False
  obtain c ds where cd: "nat_to_string (nat t) = c # ds"
    using nat_to_string_digits [of "nat t"] by (cases "nat_to_string (nat t)") auto
  have "c \<noteq> CHR ''-''" using hd_nat_to_string [of "nat t"] cd by simp
  then show ?thesis
    using False cd nat_to_string_digits [of "nat t"] digits_value_nat_to_string [of "nat t"]
    by (simp add: to_string_def is_decimal_def decimal_value_def)
qed

lemma PostHogEvent_timestamp:
  "jfield ''timestamp'' (PostHogEvent_to_json e) = Some (JString (to_string (ev_timestamp e)))"
  by (simp add: PostHogEvent_to_json_def obj_assign_def map_of_obj_insert)

lemma SessionReplayEvent_timestamp:
  "jfield ''timestamp'' (SessionReplayEvent_to_json e) = Some (JString (to_string (sr_timestamp e)))"
  by (simp add: SessionReplayEvent_to_json_def obj_assign_def map_of_obj_insert)

lemma PostHogBatch_batch:
  "jfield ''batch'' (PostHogBatch_to_json b) = Some (JArray (map PostHogEvent_to_json (pb_batch b)))"
  by (simp add: PostHogBatch_to_json_def obj_assign_def map_of_obj_insert)

lemma SessionReplayBatch_batch:
  "jfield ''batch'' (SessionReplayBatch_to_json b)
     = Some (JArray (map SessionReplayEvent_to_json (rb_batch b)))"
  by (simp add: SessionReplayBatch_to_json_def obj_assign_def map_of_obj_insert)

text \<open>
  C9. The \<open>timestamp\<close> member of a serialised regular event and of a serialised replay
  event is a JSON string, never a JSON number, and its text is the decimal numeral of the
  event's millisecond timestamp: digits, after a minus sign for a negative value, that read
  back as the timestamp. The same holds of every element of the \<open>batch\<close> array of a capture
  batch and of a replay batch.
\<close>

theorem timestamp_is_decimal_string:
  "jfield ''timestamp'' (PostHogEvent_to_json e) = Some (JString (to_string (ev_timestamp e)))
   \<and> jfield ''timestamp'' (SessionReplayEvent_to_json r) = Some (JString (to_string (sr_timestamp r)))
   \<and> is_decimal (to_string t) \<and> decimal_value (to_string t) = t
   \<and> (\<forall>b j. jfield ''batch'' (PostHogBatch_to_json b) = Some j \<longrightarrow>
        (\<forall>x \<in> set (jelems j). \<exists>ts. jfield ''timestamp'' x = Some (JString (to_string ts))))
   \<and> (\<forall>b j. jfield ''batch'' (SessionReplayBatch_to_json b) = Some j \<longrightarrow>
        (\<forall>x \<in> set (jelems j). \<exists>ts. jfield ''timestamp'' x = Some (JString (to_string ts))))"
proof -
  have a: "\<exists>ts. jfield ''timestamp'' x = Some (JString (to_string ts))"
    if "jfield ''batch'' (PostHogBatch_to_json b) = Some j" and "x \<in> set (jelems j)" for b j x
  proof -
    from that obtain e where "x = PostHogEvent_to_json e"
      by (auto simp: PostHogBatch_batch)
    then show ?thesis using PostHogEvent_timestamp by blast
  qed
  have b: "\<exists>ts. jfield ''timestamp'' x = Some (JString (to_string ts))"
    if "jfield ''batch'' (SessionReplayBatch_to_json b) = Some j" and "x \<in> set (jelems j)" for b j x
  proof -
    from that obtain e where "x = SessionReplayEvent_to_json e"
      by (auto simp: SessionReplayBatch_batch)
    then show ?thesis using SessionReplayEvent_timestamp by blast
  qed
  show ?thesis
    using a b PostHogEvent_timestamp SessionReplayEvent_timestamp to_string_decimal by blast
qed

theorem timestamp_is_decimal_string_witness:
  "jfield ''timestamp''
     (PostHogEvent_to_json \<lparr>ev_event = ''hello'', ev_distinct_id = ''u1'',
        ev_timestamp = 1700000000123, ev_properties = JObject []\<rparr>)
     = Some (JString ''1700000000123'')
   \<and> jfield ''batch''
        (PostHogBatch_to_json \<lparr>pb_api_key = ''phc_test'',
           pb_batch = [\<lparr>ev_event = ''hello'', ev_distinct_id = ''u1'',
                        ev_timestamp = 1700000000123, ev_properties = JObject []\<rparr>]\<rparr>) \<noteq> None
   \<and> decimal_value ''1700000000123'' = 1700000000123"
proof -
  have s: "to_string 1700000000123 = ''1700000000123''"
    by (simp add: to_string_def nat_to_string.simps)
  show ?thesis
    using timestamp_is_decimal_string
      [of "\<lparr>ev_event = ''hello'', ev_distinct_id = ''u1'',
            ev_timestamp = 1700000000123, ev_properties = JObject []\<rparr>" _ 1700000000123]
    by (simp add: s PostHogBatch_batch)
qed

section \<open>Properties of the feature-flag cache\<close>










lemma ExtractJsonValue_no_flags: \<open>ExtractJsonValue ''{}'' ''featureFlags'' = []\<close>
  by (simp add: ExtractJsonValue_def find_str_def)

lemma ExtractJsonValue_sample:
  \<open>ExtractJsonValue ''{"featureFlags":{"f":"variant-a","g":true}}'' ''featureFlags''
     = ''{"f":"variant-a","g":true}''\<close>
  by (simp add: ExtractJsonValue_def find_str_def find_char_def skip_blank_def substr_def
      is_blank_def upt_rec [of _ "numeral _"])


lemma response_success:
  "success (response_of res) \<longleftrightarrow> (\<exists>st b. res = CurlOk st b \<and> 200 \<le> st \<and> st < 300)"
  by (cases res) (auto simp: response_of_def)

lemma PostDecide_response:
  "fst (PostDecide d ps res hc)
     = (if \<not> curl_handle hc \<or> base_url hc = [] then \<lparr>status_code = 0, body = [], success = False\<rparr>
        else response_of res)"
  by (simp add: PostDecide_def PerformPost_def)



text \<open>
  C2, as the code has it. When the decide POST fails in transport (a transfer error, a
  status outside 200..299, or an empty body), the reload returns false and leaves the cache
  and the store as they were. When the POST succeeds with a non-empty body, the reload
  returns true and the cache it leaves is built from the response alone, starting from the
  empty cache: no entry of the old cache survives, and when the body holds no
  \<open>featureFlags\<close> object the cache is left empty and the response is not persisted.
\<close>

theorem reload_feature_flags_contract:
  "((res = CurlFailed \<or> (\<exists>st b. res = CurlOk st b \<and> (st < 200 \<or> 300 \<le> st)) \<or> (\<exists>st. res = CurlOk st []))
      \<longrightarrow> fst (ReloadFeatureFlags d ps res (cache, sto, hc)) = False
        \<and> fst (snd (ReloadFeatureFlags d ps res (cache, sto, hc))) = cache
        \<and> fst (snd (snd (ReloadFeatureFlags d ps res (cache, sto, hc)))) = sto)
   \<and> ((\<exists>st b. res = CurlOk st b \<and> 200 \<le> st \<and> st < 300 \<and> b \<noteq> [] \<and> curl_handle hc \<and> base_url hc \<noteq> []
          \<and> (ExtractJsonValue b ''featureFlags'' = [] \<or> char_at (ExtractJsonValue b ''featureFlags'') 0 \<noteq> CHR ''{''))
      \<longrightarrow> fst (ReloadFeatureFlags d ps res (cache, sto, hc)) = True
        \<and> fst (snd (ReloadFeatureFlags d ps res (cache, sto, hc))) = Map.empty
        \<and> fst (snd (snd (ReloadFeatureFlags d ps res (cache, sto, hc)))) = sto)
   \<and> ((\<exists>st b. res = CurlOk st b \<and> 200 \<le> st \<and> st < 300 \<and> b \<noteq> [] \<and> curl_handle hc \<and> base_url hc \<noteq> []
          \<and> \<not> (ExtractJsonValue b ''featureFlags'' = [] \<or> char_at (ExtractJsonValue b ''featureFlags'') 0 \<noteq> CHR ''{''))
      \<longrightarrow> fst (ReloadFeatureFlags d ps res (cache, sto, hc)) = True
        \<and> fst (snd (ReloadFeatureFlags d ps res (cache, sto, hc)))
            = parse_flags_loop (ExtractJsonValue (case res of CurlOk st b \<Rightarrow> b | CurlFailed \<Rightarrow> []) ''featureFlags'') 1 Map.empty)"
  by (auto simp: ReloadFeatureFlags_def PostDecide_def PerformPost_def response_of_def
      ParseFlagsResponse_def Let_def split: curl_result.splits prod.splits)

theorem reload_feature_flags_contract_witness:
  \<open>fst (snd (ReloadFeatureFlags ''u1'' [] (CurlOk 500 ''oops'') ([''beta'' \<mapsto> ''true''], empty_store, test_client)))
     = [''beta'' \<mapsto> ''true'']
   \<and> \<not> fst (ReloadFeatureFlags ''u1'' [] CurlFailed ([''beta'' \<mapsto> ''true''], empty_store, test_client))
   \<and> fst (snd (ReloadFeatureFlags ''u1'' [] (CurlOk 200 ''{"featureFlags":{"f":"variant-a","g":true}}'')
               ([''beta'' \<mapsto> ''true''], empty_store, test_client))) ''beta'' = None\<close>
proof -
  have a: "\<exists>st b. CurlOk 500 ''oops'' = CurlOk st b \<and> (st < 200 \<or> 300 \<le> st)" by simp
  have b: \<open>\<exists>st b. CurlOk 200 ''{"featureFlags":{"f":"variant-a","g":true}}'' = CurlOk st b
             \<and> 200 \<le> st \<and> st < 300 \<and> b \<noteq> [] \<and> curl_handle test_client \<and> base_url test_client \<noteq> []
             \<and> \<not> (ExtractJsonValue b ''featureFlags'' = [] \<or> char_at (ExtractJsonValue b ''featureFlags'') 0 \<noteq> CHR ''{'')\<close>
    by (simp add: ExtractJsonValue_sample char_at_def test_client_def)
  have c: \<open>parse_flags_loop ''{"f":"variant-a","g":true}'' 1 Map.empty ''beta'' = None\<close>
    by (simp add: parse_flags_loop.simps flags_step_def next_entry_def find_char_def
      skip_blank_def substr_def is_blank_def scan_until_def trim_def upt_rec [of _ "numeral _"])
  show ?thesis
    using reload_feature_flags_contract
        [of "CurlOk 500 ''oops''" "''u1''" "[]" "[''beta'' \<mapsto> ''true'']" empty_store test_client]
      reload_feature_flags_contract
        [of CurlFailed "''u1''" "[]" "[''beta'' \<mapsto> ''true'']" empty_store test_client]
      reload_feature_flags_contract
        [of "CurlOk 200 ''{\"featureFlags\":{\"f\":\"variant-a\",\"g\":true}}''" "''u1''" "[]"
            "[''beta'' \<mapsto> ''true'']" empty_store test_client]
      a b c
    by (simp add: ExtractJsonValue_sample)
qed

text \<open>
  C2 as stated fails: a 200 response whose body is \<open>{}\<close>, with no \<open>featureFlags\<close> object,
  makes the reload return true and empties a cache that held the flag \<open>beta\<close>.
\<close>

theorem reload_unparseable_body_counterexample:
  \<open>fst (ReloadFeatureFlags ''u1'' [] (CurlOk 200 ''{}'') ([''beta'' \<mapsto> ''true''], empty_store, test_client))
   \<and> IsFeatureEnabled [''beta'' \<mapsto> ''true''] ''beta''
   \<and> fst (snd (ReloadFeatureFlags ''u1'' [] (CurlOk 200 ''{}'')
                ([''beta'' \<mapsto> ''true''], empty_store, test_client))) ''beta'' = None
   \<and> fst (snd (ReloadFeatureFlags ''u1'' [] (CurlOk 200 ''{}'')
                ([''beta'' \<mapsto> ''true''], empty_store, test_client))) \<noteq> [''beta'' \<mapsto> ''true'']\<close>
proof -
  have "fst (snd (ReloadFeatureFlags ''u1'' [] (CurlOk 200 ''{}'')
                ([''beta'' \<mapsto> ''true''], empty_store, test_client))) = Map.empty"
    by (simp add: ReloadFeatureFlags_def PostDecide_def PerformPost_def response_of_def
        ParseFlagsResponse_def ExtractJsonValue_no_flags test_client_def)
  moreover have "fst (ReloadFeatureFlags ''u1'' [] (CurlOk 200 ''{}'')
                 ([''beta'' \<mapsto> ''true''], empty_store, test_client))"
    by (simp add: ReloadFeatureFlags_def PostDecide_def PerformPost_def response_of_def
        ParseFlagsResponse_def ExtractJsonValue_no_flags test_client_def)
  moreover have "(Map.empty :: string \<Rightarrow> string option) \<noteq> [''beta'' \<mapsto> ''true'']"
    by (metis fun_upd_same option.distinct(1))
  ultimately show ?thesis by (simp add: IsFeatureEnabled_def)
qed

section \<open>Properties of the replay pipeline\<close>

text \<open>
  C7 at the inputs where the code leaves it: for a vector of length 0 or 1 the loop bound
  \<open>data.size() - 2\<close> wraps around in \<open>size_t\<close>, the loop is entered and reads past the end
  of the vector. A vector of length 2 is encoded. A one-byte image that passes through the
  encoder unchanged (no JPEG support) therefore never yields a buffered frame.
\<close>

theorem base64_short_vector_out_of_bounds:
  "Base64Encode [] = Inl OutOfBounds
   \<and> Base64Encode [0x41] = Inl OutOfBounds
   \<and> Base64Encode [0x41, 0x42] = Inr ''QUI=''
   \<and> AddSnapshot None 1700000000000 [0x41] 1 0 0 800 600 active_manager = Inl OutOfBounds"
proof -
  have a: "Base64Encode [] = Inl OutOfBounds"
    by (simp add: Base64Encode_def b64_loop.simps)
  have b: "Base64Encode [0x41] = Inl OutOfBounds"
    by (simp add: Base64Encode_def b64_loop.simps)
  have c: "Base64Encode [0x41, 0x42] = Inr ''QUI=''"
    by (simp add: Base64Encode_def b64_loop.simps b64_char_def base64_chars_def)
  have d: "AddSnapshot None 1700000000000 [0x41] 1 0 0 800 600 active_manager = Inl OutOfBounds"
    by (simp add: AddSnapshot_def active_manager_def new_SessionReplayManager_def
        ResizeImage_def CompressToJpeg_def b)
  show ?thesis using a b c d by simp
qed

lemma distinct_base64_chars: "distinct base64_chars"
  by (simp add: base64_chars_def)

lemma length_base64_chars: "length base64_chars = 64"
  by (simp add: base64_chars_def)

lemma sextet_lt: "unat (drop_bit sh (w :: 32 word) AND 0x3F) < 64"
proof -
  have "drop_bit sh w AND 0x3F \<le> 0x3F" by (rule word_and_le1)
  then show ?thesis by (simp add: word_le_nat_alt)
qed

lemma takeWhile_index:
  assumes "distinct xs" and "i < length xs"
  shows "length (takeWhile (\<lambda>x. x \<noteq> xs ! i) xs) = i"
proof -
  let ?n = "length (takeWhile (\<lambda>x. x \<noteq> xs ! i) xs)"
  have le: "?n \<le> i"
  proof (rule ccontr)
    assume "\<not> ?n \<le> i"
    then have "i < ?n" by simp
    then have "takeWhile (\<lambda>x. x \<noteq> xs ! i) xs ! i \<in> set (takeWhile (\<lambda>x. x \<noteq> xs ! i) xs)"
      by (rule nth_mem)
    moreover have "takeWhile (\<lambda>x. x \<noteq> xs ! i) xs ! i = xs ! i"
      using \<open>i < ?n\<close> by (rule takeWhile_nth)
    ultimately have "xs ! i \<in> set (takeWhile (\<lambda>x. x \<noteq> xs ! i) xs)" by simp
    then have "xs ! i \<noteq> xs ! i" by (rule set_takeWhileD [THEN conjunct2])
    then show False by simp
  qed
  then have lt: "?n < length xs" using assms(2) by simp
  have "\<not> (xs ! ?n \<noteq> xs ! i)" using lt by (rule nth_length_takeWhile)
  then have "xs ! ?n = xs ! i" by simp
  then show ?thesis using assms lt by (simp add: nth_eq_iff_index_eq)
qed

lemma b64_index_char: "b64_index (b64_char w sh) = drop_bit sh w AND 0x3F"
proof -
  let ?i = "unat (drop_bit sh w AND 0x3F)"
  have "length (takeWhile (\<lambda>x. x \<noteq> base64_chars ! ?i) base64_chars) = ?i"
    using sextet_lt [of sh w] by (intro takeWhile_index distinct_base64_chars) (simp add: length_base64_chars)
  then show ?thesis by (simp add: b64_index_def b64_char_def)
qed

lemma pad_not_in: "CHR ''='' \<notin> set base64_chars"
  by (simp add: base64_chars_def)

lemma b64_char_not_pad: "b64_char w sh \<noteq> CHR ''=''"
proof -
  have "b64_char w sh \<in> set base64_chars"
    unfolding b64_char_def using sextet_lt [of sh w] by (intro nth_mem) (simp add: length_base64_chars)
  then show ?thesis using pad_not_in by metis
qed
lemmas b64_bits = bit_or_iff bit_push_bit_iff bit_and_iff bit_drop_bit_eq bit_mask_iff bit_ucast_iff

lemma sextets_join:
  fixes w :: "32 word"
  assumes "drop_bit 24 w = 0"
  shows "push_bit 18 (drop_bit 18 w AND 0x3F) OR push_bit 12 (drop_bit 12 w AND 0x3F)
           OR push_bit 6 (drop_bit 6 w AND 0x3F) OR (drop_bit 0 w AND 0x3F) = w"
proof (rule bit_word_eqI)
  fix n assume n: "n < LENGTH(32)"
  have m: "(0x3F :: 32 word) = mask 6" by (simp add: mask_eq_exp_minus_1)
  have hi: "\<not> bit w n" if "24 \<le> n"
  proof -
    have "bit (drop_bit 24 w) (n - 24) = bit w n" using that by (simp add: bit_drop_bit_eq)
    then show ?thesis using assms by simp
  qed
  consider "n < 6" | "6 \<le> n" "n < 12" | "12 \<le> n" "n < 18" | "18 \<le> n" "n < 24" | "24 \<le> n"
    by linarith
  then show "bit (push_bit 18 (drop_bit 18 w AND 0x3F) OR push_bit 12 (drop_bit 12 w AND 0x3F)
           OR push_bit 6 (drop_bit 6 w AND 0x3F) OR (drop_bit 0 w AND 0x3F)) n = bit w n"
  proof cases
    case 1
    then show ?thesis by (auto simp add: m b64_bits)
  next
    case 2
    then show ?thesis by (auto simp add: m b64_bits) 
  next
    case 3
    then show ?thesis by (auto simp add: m b64_bits)
  next
    case 4
    then show ?thesis by (auto simp add: m b64_bits)
  next
    case 5
    then show ?thesis using hi [OF 5] n by (simp add: m b64_bits)
  qed
qed

lemma join_bytes_hi:
  fixes a b c :: "8 word"
  shows "drop_bit 24 (push_bit 16 (ucast a) OR push_bit 8 (ucast b) OR ucast c :: 32 word) = 0"
  by (rule bit_word_eqI) (auto simp: b64_bits dest: bit_imp_le_length)

lemma byte0:
  fixes a b c :: "8 word"
  shows "ucast (drop_bit 16 (push_bit 16 (ucast a) OR push_bit 8 (ucast b) OR ucast c :: 32 word)) = a"
  by (rule bit_word_eqI) (auto simp: b64_bits dest: bit_imp_le_length)

lemma byte1:
  fixes a b c :: "8 word"
  shows "ucast (drop_bit 8 (push_bit 16 (ucast a) OR push_bit 8 (ucast b) OR ucast c :: 32 word)) = b"
  by (rule bit_word_eqI) (auto simp: b64_bits dest: bit_imp_le_length)

lemma byte2:
  fixes a b c :: "8 word"
  shows "ucast (push_bit 16 (ucast a) OR push_bit 8 (ucast b) OR ucast c :: 32 word) = c"
  by (rule bit_word_eqI) (auto simp: b64_bits dest: bit_imp_le_length)


lemma decode_group:
  fixes a b c :: "8 word"
  defines "w \<equiv> (push_bit 16 (ucast a) OR push_bit 8 (ucast b) OR ucast c :: 32 word)"
  shows "Base64Decode ([b64_char w 18, b64_char w 12, b64_char w 6, b64_char w 0] @ rest)
           = [a, b, c] @ Base64Decode rest"
proof -
  have j: "b64_word (b64_char w 18) (b64_char w 12) (b64_char w 6) (b64_char w 0) = w"
    using sextets_join [of w] join_bytes_hi [of a b c]
    by (simp add: b64_word_def b64_char_not_pad b64_index_char w_def)
  show ?thesis
    using byte0 [of a b c] byte1 [of a b c] byte2 [of a b c]
    by (simp add: j b64_char_not_pad Let_def w_def [symmetric])
qed

lemma low_sextet_zero:
  fixes a b :: "8 word"
  shows "(push_bit 16 (ucast a) OR push_bit 8 (ucast b) :: 32 word) AND 0x3F = 0"
proof (rule bit_word_eqI)
  fix n assume "n < LENGTH(32)"
  have m: "(0x3F :: 32 word) = mask 6" by (simp add: mask_eq_exp_minus_1)
  show "bit ((push_bit 16 (ucast a) OR push_bit 8 (ucast b) :: 32 word) AND 0x3F) n = bit (0 :: 32 word) n"
    by (auto simp: m b64_bits)
qed

lemma mid_sextet_zero:
  fixes a :: "8 word"
  shows "drop_bit 6 (push_bit 16 (ucast a) :: 32 word) AND 0x3F = 0"
proof (rule bit_word_eqI)
  fix n assume "n < LENGTH(32)"
  have m: "(0x3F :: 32 word) = mask 6" by (simp add: mask_eq_exp_minus_1)
  show "bit (drop_bit 6 (push_bit 16 (ucast a) :: 32 word) AND 0x3F) n = bit (0 :: 32 word) n"
    by (auto simp: m b64_bits)
qed

lemma decode_tail2:
  fixes a b :: "8 word"
  defines "w \<equiv> (push_bit 16 (ucast a) OR push_bit 8 (ucast b) :: 32 word)"
  shows "Base64Decode [b64_char w 18, b64_char w 12, b64_char w 6, CHR ''=''] = [a, b]"
proof -
  have w0: "w = push_bit 16 (ucast a) OR push_bit 8 (ucast b) OR ucast (0 :: 8 word)"
    by (simp add: w_def)
  have hi: "drop_bit 24 w = 0" unfolding w0 by (rule join_bytes_hi)
  have lo: "drop_bit 0 w AND 0x3F = 0" using low_sextet_zero [of a b] by (simp add: w_def)
  have j: "b64_word (b64_char w 18) (b64_char w 12) (b64_char w 6) CHR ''='' = w"
    using sextets_join [OF hi] lo
    by (simp add: b64_word_def b64_char_not_pad b64_index_char)
  have "ucast (drop_bit 16 w) = a" "ucast (drop_bit 8 w) = b"
    unfolding w0 by (rule byte0, rule byte1)
  then show ?thesis by (simp add: j b64_char_not_pad Let_def)
qed

lemma decode_tail1:
  fixes a :: "8 word"
  defines "w \<equiv> (push_bit 16 (ucast a) :: 32 word)"
  shows "Base64Decode [b64_char w 18, b64_char w 12, CHR ''='', CHR ''=''] = [a]"
proof -
  have w0: "w = push_bit 16 (ucast a) OR push_bit 8 (ucast (0 :: 8 word)) OR ucast (0 :: 8 word)"
    by (simp add: w_def)
  have hi: "drop_bit 24 w = 0" unfolding w0 by (rule join_bytes_hi)
  have lo: "drop_bit 0 w AND 0x3F = 0" using low_sextet_zero [of a 0] by (simp add: w_def)
  have mid: "drop_bit 6 w AND 0x3F = 0" using mid_sextet_zero [of a] by (simp add: w_def)
  have j: "b64_word (b64_char w 18) (b64_char w 12) CHR ''='' CHR ''='' = w"
    using sextets_join [OF hi] lo mid
    by (simp add: b64_word_def b64_char_not_pad b64_index_char)
  have "ucast (drop_bit 16 w) = a"
    unfolding w0 by (rule byte0)
  then show ?thesis by (simp add: j Let_def)
qed

lemma Base64Decode_groups: "Base64Decode (b64_groups d) = d"
proof (induction d rule: b64_groups.induct)
  case (1 a b c rest)
  then show ?case using decode_group [of a b c "b64_groups rest"] by (simp add: Let_def)
next
  case (2 a b)
  then show ?case using decode_tail2 [of a b] by (simp add: Let_def)
next
  case (3 a)
  then show ?case using decode_tail1 [of a] by (simp add: Let_def)
next
  case 4
  then show ?case by simp
qed

lemma b64_loop_groups:
  assumes "i \<le> length d" and "bound = length d - 2" and "2 \<le> length d"
  shows "\<exists>j acc'. b64_loop d bound i acc = Inr (j, acc') \<and> j \<le> length d \<and> length d \<le> j + 2
           \<and> acc' @ b64_groups (drop j d) = acc @ b64_groups (drop i d)"
  using assms
proof (induction d bound i acc rule: b64_loop.induct)
  case (1 d bound i acc)
  show ?case
  proof (cases "i < bound")
    case False
    then have "b64_loop d bound i acc = Inr (i, acc)"
      by (subst b64_loop.simps) simp
    moreover have "length d \<le> i + 2" using False 1(3) by simp
    ultimately show ?thesis using 1(2) by simp
  next
    case True
    then have r: "i + 2 < length d" using 1(3) by simp
    define w where "w = (push_bit 16 (ucast (d ! i)) OR push_bit 8 (ucast (d ! (i + 1)))
                      OR ucast (d ! (i + 2)) :: 32 word)"
    define g where "g = [b64_char w 18, b64_char w 12, b64_char w 6, b64_char w 0]"
    have dr: "drop i d = d ! i # d ! (i + 1) # d ! (i + 2) # drop (i + 3) d"
      using r by (simp add: Cons_nth_drop_Suc [symmetric] numeral_3_eq_3)
    have gr: "b64_groups (drop i d) = g @ b64_groups (drop (i + 3) d)"
      by (simp add: dr Let_def g_def w_def)
    have st: "b64_loop d bound i acc = b64_loop d bound (i + 3) (acc @ g)"
      using True r by (simp add: b64_loop.simps [of d bound i acc] Let_def g_def w_def)
    have "\<exists>j acc'. b64_loop d bound (i + 3) (acc @ g) = Inr (j, acc') \<and> j \<le> length d
            \<and> length d \<le> j + 2
            \<and> acc' @ b64_groups (drop j d) = (acc @ g) @ b64_groups (drop (i + 3) d)"
      using "1.IH" [OF True r refl] 1(3,4) r
      by (simp add: g_def w_def)
    then show ?thesis by (simp add: st gr)
  qed
qed

text \<open>
  Away from those two lengths C7 holds: a vector of at least two bytes is encoded, group by
  group, and decoding the text gives the vector back.
\<close>

theorem Base64_round_trip:
  assumes "2 \<le> length d" and "length d < 2 ^ 64"
  shows "Base64Encode d = Inr (b64_groups d) \<and> Base64Decode (b64_groups d) = d"
proof -
  have bound: "(length d + 2 ^ 64 - 2) mod 2 ^ 64 = length d - 2"
  proof -
    obtain m where m: "length d = m + 2" using assms(1) by (metis add.commute le_Suc_ex)
    have "(m + (2 :: nat) ^ 64) mod 2 ^ 64 = m mod 2 ^ 64" by (rule mod_add_self2)
    moreover have "m mod 2 ^ 64 = m" using assms(2) m by (intro mod_less) simp
    moreover have "length d + 2 ^ 64 - 2 = m + 2 ^ 64" using m by simp
    ultimately show ?thesis using m by simp
  qed
  obtain j acc' where l: "b64_loop d (length d - 2) 0 [] = Inr (j, acc')"
    and j: "j \<le> length d" "length d \<le> j + 2"
    and g: "acc' @ b64_groups (drop j d) = b64_groups d"
    using b64_loop_groups [of 0 d "length d - 2" "[]"] assms(1) by auto
  consider "j = length d" | "j + 1 = length d" | "j + 2 = length d" using j by linarith
  then have "Base64Encode d = Inr (b64_groups d)"
  proof cases
    case 1
    then show ?thesis using l g unfolding Base64Encode_def bound by simp
  next
    case 2
    then have "drop j d = [d ! j]" by (metis Cons_nth_drop_Suc Suc_eq_plus1 drop_all le_refl lessI)
    then show ?thesis using 2 l g unfolding Base64Encode_def bound by (auto simp add: Let_def)
  next
    case 3
    then have "drop j d = [d ! j, d ! (j + 1)]"
      by (metis Cons_nth_drop_Suc Suc_eq_plus1 add_2_eq_Suc' drop_all le_refl lessI less_SucI)
    then show ?thesis using 3 l g unfolding Base64Encode_def bound by (auto simp add: Let_def)
  qed
  then show ?thesis using Base64Decode_groups by simp
qed

lemma snapshot_envelope_base64:
  "envelope_base64 (SessionReplayEvent_to_json (snapshot_replay_event distinct_id session_id snapshot))
     = Some (JString (sn_image_base64 snapshot))"
  by (simp add: envelope_base64_def SessionReplayEvent_to_json_def snapshot_replay_event_def
      SessionReplaySnapshotEvent_to_json_def SessionReplaySnapshotData_to_json_def
      SessionReplayWireframe_to_json_def obj_assign_def map_of_obj_insert Let_def)

text \<open>
  So a frame that \<open>AddSnapshot\<close> buffers from at least two encoder bytes carries, in its wire
  envelope, a text that decodes to exactly those bytes.
\<close>

theorem snapshot_envelope_round_trip:
  assumes "AddSnapshot cdc now png i x y width height rm = Inr rm'" and "is_active rm"
    and "2 \<le> length (CompressToJpeg cdc (compression_quality rm) png width height)"
    and "length (CompressToJpeg cdc (compression_quality rm) png width height) < 2 ^ 64"
  shows "\<exists>s. envelope_base64 (SessionReplayEvent_to_json
                 (snapshot_replay_event distinct_id session_id (last (snapshot_buffer rm'))))
               = Some (JString s)
             \<and> Base64Decode s = CompressToJpeg cdc (compression_quality rm) png width height"
proof -
  let ?c = "CompressToJpeg cdc (compression_quality rm) png width height"
  have e: "Base64Encode ?c = Inr (b64_groups ?c)" "Base64Decode (b64_groups ?c) = ?c"
    using Base64_round_trip [OF assms(3,4)] by simp_all
  have "sn_image_base64 (last (snapshot_buffer rm')) = b64_groups ?c"
    using assms(1,2) e(1) by (auto simp: AddSnapshot_def ResizeImage_def Let_def)
  then show ?thesis using e(2) by (simp add: snapshot_envelope_base64)
qed


lemma PerformPost_requests:
  "curl_handle hc \<Longrightarrow> base_url hc \<noteq> [] \<Longrightarrow>
     requests (snd (PerformPost e b res hc)) = requests hc @ [\<lparr>req_url = base_url hc @ e, req_body = b\<rparr>]"
  by (simp add: PerformPost_def)

lemma SendBatch_requests:
  assumes "curl_handle hc" and "base_url hc \<noteq> []" and "rm_http rm" and "snaps \<noteq> [] \<or> metas \<noteq> []"
  shows "\<exists>p. requests (snd (SendBatch now rnd res snaps metas rm (sto, hc)))
            = requests hc @ [\<lparr>req_url = base_url hc @ ''/capture/'', req_body = Text p\<rparr>]"
  using assms
  by (auto simp: SendBatch_def PostSessionReplay_def PerformPost_requests Let_def split: prod.splits)

lemma SendBatch_events: "events (fst (SendBatch now rnd res snaps metas rm (sto, hc))) = events sto"
  by (auto simp: SendBatch_def replay_distinct_id_def SetDistinctId_def set_setting_def Let_def split: prod.splits if_splits)

text \<open>
  C8, as the code has it. With a batch size of at least 1, a running worker and a configured
  client, one turn of the worker posts a batch exactly when the pipeline is active and
  either the snapshot buffer holds at least \<open>batch_size\<close> frames or it is non-empty and
  the time since the last send is at least \<open>batch_interval_ms\<close>; a turn that posts makes
  one POST to the capture endpoint; with an empty snapshot buffer the turn changes nothing,
  whatever the meta-event buffer holds.
\<close>

theorem replay_worker_send_iff:
  assumes "1 \<le> batch_size rm" and "batch_size rm < 2 ^ 31" and "rm_should_flush rm"
    and "rm_http rm" and "curl_handle hc" and "base_url hc \<noteq> []"
  shows "(requests (snd (snd (snd (FlushThread_turn steady_now now_ms rnd res (rm, sto, hc))))) \<noteq> requests hc
          \<longleftrightarrow> is_active rm \<and> (int (length (snapshot_buffer rm)) \<ge> batch_size rm
                \<or> (snapshot_buffer rm \<noteq> [] \<and> steady_now - last_batch_time rm \<ge> batch_interval_ms rm)))
       \<and> (requests (snd (snd (snd (FlushThread_turn steady_now now_ms rnd res (rm, sto, hc))))) \<noteq> requests hc
          \<longrightarrow> (\<exists>p. requests (snd (snd (snd (FlushThread_turn steady_now now_ms rnd res (rm, sto, hc)))))
                   = requests hc @ [\<lparr>req_url = base_url hc @ ''/capture/'', req_body = Text p\<rparr>]))
       \<and> (snapshot_buffer rm = [] \<longrightarrow>
            FlushThread_turn steady_now now_ms rnd res (rm, sto, hc) = (True, rm, sto, hc))"
proof -
  have m: "batch_size rm mod 2 ^ 64 = batch_size rm"
    using assms(1,2) by (simp add: mod_pos_pos_trivial)
  have ss: "should_send steady_now rm \<longleftrightarrow>
       (int (length (snapshot_buffer rm)) \<ge> batch_size rm
         \<or> (snapshot_buffer rm \<noteq> [] \<and> steady_now - last_batch_time rm \<ge> batch_interval_ms rm))"
    unfolding should_send_def m using assms(1) by auto
  have ne: "should_send steady_now rm \<Longrightarrow> snapshot_buffer rm \<noteq> []"
    using assms(1) by (auto simp: ss)
  show ?thesis
  proof (cases "is_active rm \<and> should_send steady_now rm")
    case True
    let ?rm' = "rm\<lparr>snapshot_buffer := [], meta_event_buffer := [], last_batch_time := steady_now\<rparr>"
    from SendBatch_requests [of hc ?rm' "snapshot_buffer rm" "meta_event_buffer rm" now_ms rnd res sto]
    obtain p where p: "requests (snd (SendBatch now_ms rnd res (snapshot_buffer rm) (meta_event_buffer rm) ?rm' (sto, hc)))
            = requests hc @ [\<lparr>req_url = base_url hc @ ''/capture/'', req_body = Text p\<rparr>]"
      using assms True ne by auto
    have "requests (snd (snd (snd (FlushThread_turn steady_now now_ms rnd res (rm, sto, hc)))))
            = requests hc @ [\<lparr>req_url = base_url hc @ ''/capture/'', req_body = Text p\<rparr>]"
      using True assms p by (simp add: FlushThread_turn_def Let_def split: prod.splits)
    then show ?thesis using True ss ne by auto
  next
    case False
    then have "FlushThread_turn steady_now now_ms rnd res (rm, sto, hc) = (True, rm, sto, hc)"
      using assms by (auto simp: FlushThread_turn_def)
    then show ?thesis using False ss by auto
  qed
qed

theorem replay_worker_send_iff_witness:
  "1 \<le> batch_size meta_waiting_manager \<and> batch_size meta_waiting_manager < 2 ^ 31
   \<and> rm_should_flush meta_waiting_manager \<and> rm_http meta_waiting_manager
   \<and> curl_handle test_client \<and> base_url test_client \<noteq> []
   \<and> meta_event_buffer meta_waiting_manager \<noteq> []
   \<and> FlushThread_turn 100 1700000000100 1234 (CurlOk 200 ''ok'')
        (meta_waiting_manager, empty_store, test_client)
      = (True, meta_waiting_manager, empty_store, test_client)"
proof -
  have h: "1 \<le> batch_size meta_waiting_manager" "batch_size meta_waiting_manager < 2 ^ 31"
    "rm_should_flush meta_waiting_manager" "rm_http meta_waiting_manager"
    "curl_handle test_client" "base_url test_client \<noteq> []"
    by (simp_all add: meta_waiting_manager_def active_manager_def new_SessionReplayManager_def
        test_client_def)
  have e: "snapshot_buffer meta_waiting_manager = []" "meta_event_buffer meta_waiting_manager \<noteq> []"
    by (simp_all add: meta_waiting_manager_def active_manager_def new_SessionReplayManager_def)
  show ?thesis
    using replay_worker_send_iff [OF h, of 100 1700000000100 1234 "CurlOk 200 ''ok''" empty_store] h e
    by simp
qed

text \<open>
  C8 as stated fails: with the batch size configured as 0, an active pipeline whose snapshot
  buffer is empty and whose meta-event buffer holds one event posts a batch in the next
  turn of the worker, and the meta-event buffer is emptied.
\<close>

theorem replay_worker_meta_only_counterexample:
  "snapshot_buffer meta_only_manager = []
   \<and> length (requests (snd (snd (snd (FlushThread_turn 100 1700000000100 1234 (CurlOk 200 ''ok'')
        (meta_only_manager, empty_store, test_client)))))) = 1
   \<and> requests test_client = []
   \<and> meta_event_buffer (fst (snd (FlushThread_turn 100 1700000000100 1234 (CurlOk 200 ''ok'')
        (meta_only_manager, empty_store, test_client)))) = []"
proof -
  have a: "should_send 100 meta_only_manager"
    by (simp add: should_send_def meta_only_manager_def meta_waiting_manager_def
        active_manager_def new_SessionReplayManager_def)
  show ?thesis
    using SendBatch_requests [of test_client
      "meta_only_manager\<lparr>snapshot_buffer := [], meta_event_buffer := [], last_batch_time := 100\<rparr>"
      "[]" "meta_event_buffer meta_only_manager" 1700000000100 1234 "CurlOk 200 ''ok''" empty_store]
    apply (simp add: FlushThread_turn_def a Let_def split: prod.splits)
    apply (auto simp add: meta_only_manager_def meta_waiting_manager_def active_manager_def
        new_SessionReplayManager_def test_client_def)
    done
qed

section \<open>Properties of the plugin\<close>

subsection \<open>Flushing\<close>

lemma find_char_first_bar:
  assumes "c \<notin> set xs"
  shows "find_char c (xs @ c # ys) 0 = Some (length xs)"
proof -
  have "List.find (\<lambda>i. (xs @ c # ys) ! i = c) [0..<length (xs @ c # ys)] = Some (length xs)"
    unfolding find_Some_iff
  proof (intro exI [of _ "length xs"] conjI allI impI)
    show "length xs < length [0..<length (xs @ c # ys)]" by simp
    show "(xs @ c # ys) ! ([0..<length (xs @ c # ys)] ! length xs) = c"
      by (simp del: upt_Suc)
    show "length xs = [0..<length (xs @ c # ys)] ! length xs"
      by (simp del: upt_Suc)
    fix j assume "j < length xs"
    then show "(xs @ c # ys) ! ([0..<length (xs @ c # ys)] ! j) \<noteq> c"
      using assms by (auto simp del: upt_Suc simp add: nth_append)
  qed
  then show ?thesis by (simp add: find_char_def)
qed

lemma split_events_acc:
  assumes "\<forall>r \<in> set rows. CHR ''|'' \<notin> set (row_id r)"
  shows "foldl (\<lambda>(event_ids, event_jsons) e.
              case find_char CHR ''|'' e 0 of
                None \<Rightarrow> (event_ids, event_jsons)
              | Some pos \<Rightarrow> (event_ids @ [substr e 0 pos],
                             event_jsons @ [substr e (pos + 1) (length e)]))
           (a, b) (map (\<lambda>r. row_id r @ ''|'' @ event_json r) rows)
         = (a @ map row_id rows, b @ map event_json rows)"
  using assms
proof (induction rows arbitrary: a b)
  case Nil
  then show ?case by simp
next
  case (Cons r rows)
  have f: "find_char CHR ''|'' (row_id r @ CHR ''|'' # event_json r) 0 = Some (length (row_id r))"
    using Cons.prems by (intro find_char_first_bar) simp
  show ?case using Cons f by (simp add: substr_def)
qed

lemma split_events_drained:
  assumes "\<forall>r \<in> set rows. CHR ''|'' \<notin> set (row_id r)"
  shows "split_events (map (\<lambda>r. row_id r @ ''|'' @ event_json r) rows)
           = (map row_id rows, map event_json rows)"
  using split_events_acc [OF assms, of "[]" "[]"] by (simp add: split_events_def)

lemma set_drained_rows: "set (drained_rows n s) \<subseteq> set (events s)"
  by (auto simp: drained_rows_def sql_limit_def dest: in_set_takeD)

lemma split_GetQueuedEvents:
  assumes "store_inv s" and "db_open s"
  shows "split_events (GetQueuedEvents n s)
           = (map row_id (drained_rows n s), map event_json (drained_rows n s))"
proof -
  have "\<forall>r \<in> set (drained_rows n s). CHR ''|'' \<notin> set (row_id r)"
    using assms(1) set_drained_rows [of n s] by (auto simp: store_inv_def)
  from split_events_drained [OF this] show ?thesis
    using assms(2) by (simp add: GetQueuedEvents_def)
qed



lemma PostCapture_requests:
  "evs \<noteq> [] \<Longrightarrow> requests (snd (PostCapture evs res hc))
     = (if curl_handle hc \<and> base_url hc \<noteq> []
        then requests hc @ [\<lparr>req_url = base_url hc @ ''/capture/'', req_body = CaptureOf (hc_api_key hc) evs\<rparr>]
        else requests hc)"
  by (auto simp: PostCapture_def PerformPost_def)


lemma flush_batch_requests:
  assumes "store_inv sto" and "db_open sto"
  shows "requests (snd (flush_batch res n (sto, hc)))
          = (if drained_rows n sto \<noteq> [] \<and> curl_handle hc \<and> base_url hc \<noteq> []
             then requests hc @ [\<lparr>req_url = base_url hc @ ''/capture/'',
                    req_body = CaptureOf (hc_api_key hc) (map event_json (drained_rows n sto))\<rparr>]
             else requests hc)"
  using assms PostCapture_requests [of "map event_json (drained_rows n sto)" res hc]
  by (auto simp: flush_batch_def split_GetQueuedEvents post_and_remove_def Let_def split: prod.splits)



lemma hex_digit_cases: "hex_digit d \<in> set ''0123456789abcdef''"
proof -
  have "unat d < 2 ^ 4" using unsigned_less [of d, where ?'a = nat] by simp
  then show ?thesis unfolding hex_digit_def by (intro nth_mem) simp
qed

lemma GenerateUUID_no_bar: "CHR ''|'' \<notin> set (GenerateUUID draw)"
proof -
  have "CHR ''|'' = hex_digit d \<Longrightarrow> False" for d using hex_digit_cases [of d] by auto
  then show ?thesis by (auto simp: GenerateUUID_def)
qed


lemma RemoveEvents_inv:
  assumes "store_inv s"
  shows "store_inv (snd (RemoveEvents ids s))"
  using assms
  by (auto simp: RemoveEvents_def exec_delete_def store_inv_def distinct_map_filter)


lemma set_setting_events [simp]:
  "events (set_setting k v s) = events s" "db_open (set_setting k v s) = db_open s"
  "store_inv (set_setting k v s) = store_inv s"
  by (auto simp: set_setting_def store_inv_def)

lemma get_or_create_events [simp]:
  "events (snd (get_or_create_distinct_id f s)) = events s"
  "db_open (snd (get_or_create_distinct_id f s)) = db_open s"
  "store_inv (snd (get_or_create_distinct_id f s)) = store_inv s"
  "events (snd (get_or_create_session_id f s)) = events s"
  "db_open (snd (get_or_create_session_id f s)) = db_open s"
  "store_inv (snd (get_or_create_session_id f s)) = store_inv s"
  by (auto simp: get_or_create_distinct_id_def get_or_create_session_id_def Let_def
      SetDistinctId_def SetSessionId_def)








subsection \<open>Opt-out\<close>







text \<open>
  The \<open>alias\<close> branch tests neither \<open>initialized\<close> nor \<open>opt_out\<close>, unlike its siblings: on an
  opted-out plugin it enqueues a \<open>$create_alias\<close> event.
\<close>

lemma alias_enqueues_when_opted_out:
  "length (stored_events (handle_alias test_env (FlMap [(FlString ''alias'', FlString ''u2'')])
             (running_plugin\<lparr>opt_out := True\<rparr>))) = 1
   \<and> stored_events (Inr (running_plugin\<lparr>opt_out := True\<rparr>)) = []"
  by (simp add: stored_events_def handle_alias_def running_plugin_def running_store_def
      empty_store_def get_or_create_distinct_id_def GetDistinctId_def get_setting_def
      EnqueueEvent_def SetDistinctId_def set_setting_def Let_def)

subsection \<open>Names on the wire\<close>

lemma PostHogEvent_names:
  "jfield ''event'' (PostHogEvent_to_json e) = Some (JString (ev_event e))
   \<and> jfield ''distinct_id'' (PostHogEvent_to_json e) = Some (JString (ev_distinct_id e))"
  by (simp add: PostHogEvent_to_json_def obj_assign_def map_of_obj_insert)

text \<open>
  The replay side of C5 holds: a serialised replay event has a non-empty name and a non-empty
  distinct id, whatever the structure holds.
\<close>

lemma SessionReplayEvent_names_nonempty:
  "\<exists>n d. jfield ''event'' (SessionReplayEvent_to_json e) = Some (JString n) \<and> n \<noteq> []
        \<and> jfield ''distinct_id'' (SessionReplayEvent_to_json e) = Some (JString d) \<and> d \<noteq> []"
  by (simp add: SessionReplayEvent_to_json_def obj_assign_def map_of_obj_insert)

lemma capture_empty_name_posted:
  \<open>posted_bodies (handle_capture test_env (FlMap [(FlString ''eventName'', FlString [])])
         (running_plugin\<lparr>flush_at := 1\<rparr>))
       = [CaptureOf ''phc_test'' [''{"distinct_id":"u1","event":"","properties":{"$device_type":"Mobile","$lib":"posthog-flutter","$lib_version":"5.9.0","$os":"Linux","$os_version":"Unknown","$screen_height":600,"$screen_width":1024,"$session_id":"s1","$window_id":"main"},"timestamp":"1700000000123"}'']]\<close>
proof -
  define J where \<open>J = ''{"distinct_id":"u1","event":"","properties":{"$device_type":"Mobile","$lib":"posthog-flutter","$lib_version":"5.9.0","$os":"Linux","$os_version":"Unknown","$screen_height":600,"$screen_width":1024,"$session_id":"s1","$window_id":"main"},"timestamp":"1700000000123"}''\<close>
  define sto3 where "sto3 = running_store\<lparr>events :=
      [\<lparr>row_id = GenerateUUID (\<lambda>i. 0), event_json = J, created_at = 1700000000\<rparr>]\<rparr>"
  have inv: "store_inv sto3" "db_open sto3"
    using GenerateUUID_no_bar [of "\<lambda>i. 0"]
    by (simp_all add: sto3_def store_inv_def running_store_def empty_store_def)
  have dr: "drained_rows 50 sto3 =
      [\<lparr>row_id = GenerateUUID (\<lambda>i. 0), event_json = J, created_at = 1700000000\<rparr>]"
    by (simp add: drained_rows_def sql_limit_def sto3_def)
  have sp: "snd (split_events (GetQueuedEvents 50 sto3)) = [J]"
    by (simp add: split_GetQueuedEvents [OF inv] dr)
  have ev: "dump (PostHogEvent_to_json \<lparr>ev_event = [], ev_distinct_id = ''u1'',
               ev_timestamp = 1700000000123,
               ev_properties = JObject (capture_properties test_env ''s1'' []
                  (FlMap [(FlString ''eventName'', FlString [])]))\<rparr>) = J"
    by (simp add: J_def capture_properties_def lib_properties_def session_properties_def
        caller_properties_def obj_assign_def PostHogEvent_to_json_def test_env_def
        quote_def escape_char_def to_string_def nat_to_string.simps)
  have enq: "snd (EnqueueEvent (\<lambda>i. 0) 1700000000 J running_store) = sto3"
    by (simp add: EnqueueEvent_def sto3_def running_store_def empty_store_def)
  have env: "env_now_ms test_env = 1700000000123" "env_now_s test_env = 1700000000"
    "env_row_draw test_env = (\<lambda>i. 0)" "env_post_result test_env = CurlOk 200 ''ok''"
    by (simp_all add: test_env_def)
  have rs: "GetDistinctId running_store = ''u1''" "GetSessionId running_store = ''s1''"
    "GetAllSuperProperties running_store = []"
    by (simp_all add: GetDistinctId_def GetSessionId_def get_setting_def
        GetAllSuperProperties_def running_store_def empty_store_def)
  have qs: "GetQueueSize sto3 = 1"
    by (simp add: GetQueueSize_def sto3_def running_store_def empty_store_def)
  have hcap: "handle_capture test_env (FlMap [(FlString ''eventName'', FlString [])])
         (running_plugin\<lparr>flush_at := 1\<rparr>)
       = Inr (running_plugin\<lparr>flush_at := 1,
            storage_manager := Some (fst (flush_batch (CurlOk 200 ''ok'') 50 (sto3, test_client))),
            http_client := Some (snd (flush_batch (CurlOk 200 ''ok'') 50 (sto3, test_client)))\<rparr>)"
    by (simp add: handle_capture_def running_plugin_def get_or_create_distinct_id_def
        get_or_create_session_id_def Let_def split_beta rs env ev enq sp qs)
  show ?thesis
    unfolding hcap J_def [symmetric]
    by (simp add: posted_bodies_def flush_batch_requests [OF inv] dr test_client_def)
qed

text \<open>
  C5 at the inputs where the code leaves it. \<open>PostHogEvent::to_json\<close> writes the name and the
  distinct id as they are, with no fallback. A \<open>capture\<close> call whose event name is the empty
  string stores an event whose \<open>event\<close> member is empty, and with \<open>flushAt = 1\<close> posts it
  in the same call; an \<open>identify\<close> call with an empty user id stores an event whose
  \<open>distinct_id\<close> is empty.
\<close>

theorem regular_event_empty_names:
  \<open>jfield ''event'' (PostHogEvent_to_json (e\<lparr>ev_event := []\<rparr>)) = Some (JString [])
   \<and> jfield ''distinct_id'' (PostHogEvent_to_json (e\<lparr>ev_distinct_id := []\<rparr>)) = Some (JString [])
   \<and> stored_events (handle_capture test_env (FlMap [(FlString ''eventName'', FlString [])]) running_plugin)
       = [''{"distinct_id":"u1","event":"","properties":{"$device_type":"Mobile","$lib":"posthog-flutter","$lib_version":"5.9.0","$os":"Linux","$os_version":"Unknown","$screen_height":600,"$screen_width":1024,"$session_id":"s1","$window_id":"main"},"timestamp":"1700000000123"}'']
   \<and> posted_bodies (handle_capture test_env (FlMap [(FlString ''eventName'', FlString [])])
         (running_plugin\<lparr>flush_at := 1\<rparr>))
       = [CaptureOf ''phc_test'' [''{"distinct_id":"u1","event":"","properties":{"$device_type":"Mobile","$lib":"posthog-flutter","$lib_version":"5.9.0","$os":"Linux","$os_version":"Unknown","$screen_height":600,"$screen_width":1024,"$session_id":"s1","$window_id":"main"},"timestamp":"1700000000123"}'']]
   \<and> stored_events (handle_identify test_env (FlMap [(FlString ''userId'', FlString [])]) running_plugin)
       = [''{"distinct_id":"","event":"$identify","properties":{"$session_id":"s1","$window_id":"main"},"timestamp":"1700000000123"}'']\<close>
proof -
  have a: "jfield ''event'' (PostHogEvent_to_json (e\<lparr>ev_event := []\<rparr>)) = Some (JString [])
   \<and> jfield ''distinct_id'' (PostHogEvent_to_json (e\<lparr>ev_distinct_id := []\<rparr>)) = Some (JString [])"
    by (simp add: PostHogEvent_names)
  have b: \<open>stored_events (handle_capture test_env (FlMap [(FlString ''eventName'', FlString [])]) running_plugin)
       = [''{"distinct_id":"u1","event":"","properties":{"$device_type":"Mobile","$lib":"posthog-flutter","$lib_version":"5.9.0","$os":"Linux","$os_version":"Unknown","$screen_height":600,"$screen_width":1024,"$session_id":"s1","$window_id":"main"},"timestamp":"1700000000123"}'']\<close>
    by (simp add: stored_events_def handle_capture_def running_plugin_def running_store_def
        empty_store_def test_env_def get_or_create_distinct_id_def get_or_create_session_id_def
        GetDistinctId_def GetSessionId_def get_setting_def capture_properties_def
        GetAllSuperProperties_def lib_properties_def session_properties_def
        caller_properties_def obj_assign_def PostHogEvent_to_json_def EnqueueEvent_def
        GetQueueSize_def Let_def quote_def escape_char_def to_string_def nat_to_string.simps)
  have c: \<open>posted_bodies (handle_capture test_env (FlMap [(FlString ''eventName'', FlString [])])
         (running_plugin\<lparr>flush_at := 1\<rparr>))
       = [CaptureOf ''phc_test'' [''{"distinct_id":"u1","event":"","properties":{"$device_type":"Mobile","$lib":"posthog-flutter","$lib_version":"5.9.0","$os":"Linux","$os_version":"Unknown","$screen_height":600,"$screen_width":1024,"$session_id":"s1","$window_id":"main"},"timestamp":"1700000000123"}'']]\<close>
    by (rule capture_empty_name_posted)
  have d: \<open>stored_events (handle_identify test_env (FlMap [(FlString ''userId'', FlString [])]) running_plugin)
       = [''{"distinct_id":"","event":"$identify","properties":{"$session_id":"s1","$window_id":"main"},"timestamp":"1700000000123"}'']\<close>
    by (simp add: stored_events_def handle_identify_def running_plugin_def running_store_def
        empty_store_def test_env_def get_or_create_session_id_def SetDistinctId_def
        set_setting_def GetSessionId_def get_setting_def session_properties_def obj_assign_def
        PostHogEvent_to_json_def EnqueueEvent_def Let_def quote_def escape_char_def
        to_string_def nat_to_string.simps)
  show ?thesis using a b c d by simp
qed

theorem regular_event_empty_names_witness:
  "jfield ''event''
     (PostHogEvent_to_json \<lparr>ev_event = [], ev_distinct_id = ''u1'',
        ev_timestamp = 1700000000123, ev_properties = JObject []\<rparr>) = Some (JString [])
   \<and> length (stored_events (handle_capture test_env
         (FlMap [(FlString ''eventName'', FlString [])]) running_plugin)) = 1
   \<and> length (posted_bodies (handle_capture test_env
         (FlMap [(FlString ''eventName'', FlString [])]) (running_plugin\<lparr>flush_at := 1\<rparr>))) = 1"
  using regular_event_empty_names
    [of "\<lparr>ev_event = ''hello'', ev_distinct_id = ''u1'',
          ev_timestamp = 1700000000123, ev_properties = JObject []\<rparr>"]
  by simp

end
